theory Spec2Isabelle
  imports Main "HOL-Library.Sublist" "HOL-Library.Word"
begin

section \<open>JavaScript values\<close>

text \<open>
  The values that cross the SDK boundary are JSON documents and the results of reading
  their properties. Numbers are modelled as integers (HTTP status codes, page numbers and
  limits) of magnitude below \<open>10^21\<close>, the integers that JavaScript prints in full;
  larger magnitudes (printed in exponent form), fractional numbers and NaN are outside the
  model. A string is a list of bytes.
\<close>

datatype jsvalue =
    JUndefined
  | JNull
  | JBool bool
  | JNum int
  | JStr string
  | JArr "jsvalue list"
  | JObj "(string \<times> jsvalue) list"

text \<open>
  A thrown value: an instance of \<open>Error\<close> with its message, or any other value.
\<close>

datatype thrown = ErrorObj string | ThrownValue jsvalue

text \<open>Truthiness, as \<open>if (v)\<close>, \<open>!v\<close> and \<open>v || w\<close> test it.\<close>

fun truthy :: "jsvalue \<Rightarrow> bool" where
  "truthy JUndefined = False"
| "truthy JNull = False"
| "truthy (JBool b) = b"
| "truthy (JNum n) = (n \<noteq> 0)"
| "truthy (JStr s) = (s \<noteq> [])"
| "truthy (JArr xs) = True"
| "truthy (JObj kvs) = True"

text \<open>
  Decimal rendering of an integer, as \<open>String(n)\<close> and template literals do it for the
  integers of the model (magnitude below \<open>10^21\<close>).
\<close>

fun digits10 :: "nat \<Rightarrow> string" where
  "digits10 n =
     (if n < 10 then [''0123456789'' ! n]
      else digits10 (n div 10) @ [''0123456789'' ! (n mod 10)])"

declare digits10.simps [simp del]

definition String_of_int :: "int \<Rightarrow> string" where
  "String_of_int i = (if i < 0 then CHR ''-'' # digits10 (nat (- i)) else digits10 (nat i))"

text \<open>
  \<open>String(v)\<close>, which is also the conversion \<open>new Error(v)\<close> and
  \<open>TextEncoder.encode(v)\<close> apply. An array joins the renderings of its elements with a
  comma, where \<open>undefined\<close> and \<open>null\<close> elements render as the empty string. A plain
  object renders as \<open>[object Object]\<close> through the inherited \<open>toString\<close>; an
  object with a property \<open>toString\<close> of its own (in a JSON document never a function)
  has no callable \<open>toString\<close> and its \<open>valueOf\<close> yields no primitive, so the
  conversion throws a TypeError.
\<close>

definition cannot_convert :: thrown where
  "cannot_convert = ErrorObj ''Cannot convert object to primitive value''"

fun ToString :: "jsvalue \<Rightarrow> thrown + string"
  and join_items :: "jsvalue list \<Rightarrow> thrown + string" where
  "ToString JUndefined = Inr ''undefined''"
| "ToString JNull = Inr ''null''"
| "ToString (JBool b) = Inr (if b then ''true'' else ''false'')"
| "ToString (JNum n) = Inr (String_of_int n)"
| "ToString (JStr s) = Inr s"
| "ToString (JArr xs) = join_items xs"
| "ToString (JObj kvs) =
     (if map_of kvs ''toString'' \<noteq> None then Inl cannot_convert else Inr ''[object Object]'')"
| "join_items [] = Inr []"
| "join_items (x # xs) =
     (case (if x = JUndefined \<or> x = JNull then Inr [] else ToString x) of
        Inl e \<Rightarrow> Inl e
      | Inr sx \<Rightarrow>
          if xs = [] then Inr sx
          else (case join_items xs of
                  Inl e \<Rightarrow> Inl e
                | Inr rest \<Rightarrow> Inr (sx @ CHR '','' # rest)))"

text \<open>
  Reading a property \<open>v.k\<close>, for the property names the SDK reads (\<open>token\<close>, \<open>error\<close>,
  \<open>history\<close>, \<open>pagination\<close>, \<open>challenge\<close>, \<open>challengeToken\<close>), none of which is
  inherited from a prototype: \<open>undefined\<close> and \<open>null\<close> throw a TypeError, an object
  yields the stored value or \<open>undefined\<close>, every other value yields \<open>undefined\<close>.
\<close>

definition get_prop :: "jsvalue \<Rightarrow> string \<Rightarrow> thrown + jsvalue" where
  "get_prop v k =
     (case v of
        JUndefined \<Rightarrow>
          Inl (ErrorObj (''Cannot read properties of undefined (reading '' @ [CHR 0x27] @ k @ [CHR 0x27] @ '')''))
      | JNull \<Rightarrow>
          Inl (ErrorObj (''Cannot read properties of null (reading '' @ [CHR 0x27] @ k @ [CHR 0x27] @ '')''))
      | JObj kvs \<Rightarrow> Inr (case map_of kvs k of None \<Rightarrow> JUndefined | Some x \<Rightarrow> x)
      | _ \<Rightarrow> Inr JUndefined)"

definition isArray :: "jsvalue \<Rightarrow> bool" where
  "isArray v = (case v of JArr xs \<Rightarrow> True | _ \<Rightarrow> False)"

text \<open>\<open>a ?? b\<close>: the right operand only when the left one is \<open>undefined\<close> or \<open>null\<close>.\<close>

definition nullish_or :: "jsvalue \<Rightarrow> jsvalue \<Rightarrow> jsvalue" where
  "nullish_or a b = (if a = JUndefined \<or> a = JNull then b else a)"

subsection \<open>JSON.stringify\<close>

definition hex_digit :: "nat \<Rightarrow> char" where
  "hex_digit n = ''0123456789abcdef'' ! (n mod 16)"

definition json_escape_char :: "char \<Rightarrow> string" where
  "json_escape_char c =
     (if c = CHR 0x22 then [CHR 0x5C, CHR 0x22]
      else if c = CHR 0x5C then [CHR 0x5C, CHR 0x5C]
      else if c = CHR 0x08 then [CHR 0x5C, CHR ''b'']
      else if c = CHR 0x0C then [CHR 0x5C, CHR ''f'']
      else if c = CHR 0x0A then [CHR 0x5C, CHR ''n'']
      else if c = CHR 0x0D then [CHR 0x5C, CHR ''r'']
      else if c = CHR 0x09 then [CHR 0x5C, CHR ''t'']
      else if (of_char c :: nat) < 32
        then [CHR 0x5C, CHR ''u'', CHR ''0'', CHR ''0'',
              hex_digit (of_char c div 16), hex_digit (of_char c)]
      else [c])"

definition json_quote :: "string \<Rightarrow> string" where
  "json_quote s = [CHR 0x22] @ concat (map json_escape_char s) @ [CHR 0x22]"

text \<open>
  Serialisation of a value inside a document: an \<open>undefined\<close> array element becomes
  \<open>null\<close>, an \<open>undefined\<close> object property is left out.
\<close>

fun join_sep :: "string \<Rightarrow> string list \<Rightarrow> string" where
  "join_sep sep [] = []"
| "join_sep sep [x] = x"
| "join_sep sep (x # y # ys) = x @ sep @ join_sep sep (y # ys)"

fun stringify :: "jsvalue \<Rightarrow> string"
  and stringify_items :: "jsvalue list \<Rightarrow> string list"
  and stringify_props :: "(string \<times> jsvalue) list \<Rightarrow> string list" where
  "stringify JUndefined = ''null''"
| "stringify JNull = ''null''"
| "stringify (JBool b) = (if b then ''true'' else ''false'')"
| "stringify (JNum n) = String_of_int n"
| "stringify (JStr s) = json_quote s"
| "stringify (JArr xs) = ''['' @ join_sep '','' (stringify_items xs) @ '']''"
| "stringify (JObj kvs) = ''{'' @ join_sep '','' (stringify_props kvs) @ ''}''"
| "stringify_items [] = []"
| "stringify_items (x # xs) = stringify x # stringify_items xs"
| "stringify_props [] = []"
| "stringify_props (kv # kvs) =
     (if snd kv = JUndefined then stringify_props kvs
      else (json_quote (fst kv) @ '':'' @ stringify (snd kv)) # stringify_props kvs)"

text \<open>\<open>JSON.stringify\<close> of an object literal, the only use the SDK makes of it.\<close>

definition JSON_stringify :: "(string \<times> jsvalue) list \<Rightarrow> string" where
  "JSON_stringify props = stringify (JObj props)"

section \<open>Transport, responses and the state of a run\<close>

text \<open>\<open>RequestLike\<close>: every field is optional.\<close>

record request =
  req_method :: "string option"
  req_headers :: "(string \<times> string) list option"
  req_body :: "string option"

text \<open>
  \<open>ResponseLike\<close>: the status, what \<open>json()\<close> settles to and what \<open>text()\<close> settles
  to. On every path of the SDK \<open>text()\<close> is awaited at most once per response.
\<close>

record response =
  status :: int
  res_json :: "thrown + jsvalue"
  res_text :: "thrown + string"

text \<open>
  An asynchronous operation either resolves or rejects and may change the state.
\<close>

type_synonym ('a, 's) io = "'s \<Rightarrow> (thrown + 'a) \<times> 's"

definition resolve :: "'a \<Rightarrow> ('a, 's) io" where
  "resolve x = (\<lambda>s. (Inr x, s))"

definition throw :: "thrown \<Rightarrow> ('a, 's) io" where
  "throw e = (\<lambda>s. (Inl e, s))"

definition await :: "('a, 's) io \<Rightarrow> ('a \<Rightarrow> ('b, 's) io) \<Rightarrow> ('b, 's) io" where
  "await m k = (\<lambda>s. case m s of (Inl e, s') \<Rightarrow> (Inl e, s') | (Inr x, s') \<Rightarrow> k x s')"

definition settled :: "thrown + 'a \<Rightarrow> ('a, 's) io" where
  "settled r = (\<lambda>s. (r, s))"

text \<open>
  \<open>FetchLike\<close>: the transport is a collaborator. What it answers depends on the outside
  world \<open>'w\<close> (servers, chain), which it may change; it may reject.
\<close>

type_synonym 'w FetchLike = "string \<Rightarrow> request \<Rightarrow> (response, 'w) io"

text \<open>
  What a run of the SDK can change: the token store, the outside world, and the record
  of the calls it made to its collaborators, in order.
\<close>

datatype call =
    Fetch string request
  | PaymentFetch string request
  | SignMessage "8 word list"

record 'w sdk_state =
  tokenStore :: "string option"
  world :: 'w
  calls :: "call list"

text \<open>
  Modelled from the spec: the default token store (token-store.js is not among the
  sources). It is an in-process, memory-only store that holds at most one session token,
  with the capabilities \<open>get() -> token or absent\<close>, \<open>set(token)\<close> and \<open>clear()\<close>.
  The field \<open>tokenStore\<close> of the state is its content.
\<close>

definition store_getToken :: "(string option, 'w sdk_state) io" where
  \<comment> \<open>Modelled from the spec: \<open>get() -> token or absent\<close>.\<close>
  "store_getToken = (\<lambda>s. (Inr (tokenStore s), s))"

definition store_setToken :: "string \<Rightarrow> (unit, 'w sdk_state) io" where
  \<comment> \<open>Modelled from the spec: \<open>set(token)\<close>.\<close>
  "store_setToken token = (\<lambda>s. (Inr (), s\<lparr>tokenStore := Some token\<rparr>))"

definition store_clearToken :: "(unit, 'w sdk_state) io" where
  \<comment> \<open>Modelled from the spec: \<open>clear()\<close>.\<close>
  "store_clearToken = (\<lambda>s. (Inr (), s\<lparr>tokenStore := None\<rparr>))"

text \<open>Calling the transport, and calling the payment client's transport.\<close>

definition call_fetch :: "'w FetchLike \<Rightarrow> string \<Rightarrow> request \<Rightarrow> (response, 'w sdk_state) io" where
  "call_fetch f url init =
     (\<lambda>s. case f url init (world s) of
            (r, w') \<Rightarrow> (r, s\<lparr>world := w', calls := calls s @ [Fetch url init]\<rparr>))"

definition call_payment_fetch ::
  "'w FetchLike \<Rightarrow> string \<Rightarrow> request \<Rightarrow> (response, 'w sdk_state) io" where
  "call_payment_fetch f url init =
     (\<lambda>s. case f url init (world s) of
            (r, w') \<Rightarrow> (r, s\<lparr>world := w', calls := calls s @ [PaymentFetch url init]\<rparr>))"

section \<open>client.ts\<close>

text \<open>
  \<open>assertFetch\<close>: the transport passed in, else the global one (\<open>defaultFetchFn\<close>,
  which is \<open>null\<close> where the host has no \<open>fetch\<close>), else a configuration error.
\<close>

definition assertFetch :: "'w FetchLike option \<Rightarrow> 'w FetchLike option \<Rightarrow> thrown + 'w FetchLike" where
  "assertFetch defaultFetchFn fetchArg =
     (case fetchArg of
        Some f \<Rightarrow> Inr f
      | None \<Rightarrow>
          (case defaultFetchFn of
             None \<Rightarrow> Inl (ErrorObj
               ''No fetch implementation available. Provide a custom fetch via the SDK constructor.'')
           | Some d \<Rightarrow> Inr d))"

text \<open>\<open>parseJson\<close> (and \<open>fetchJson\<close> of auth.ts, which has the same body).\<close>

definition parseJson :: "response \<Rightarrow> thrown + jsvalue" where
  "parseJson res =
     (case res_json res of
        Inr v \<Rightarrow> Inr v
      | Inl err \<Rightarrow>
          (case res_text res of
             Inl e \<Rightarrow> Inl e
           | Inr body \<Rightarrow> Inl (ErrorObj (''Failed to parse JSON response: '' @ body))))"

record 'w LimenClientConfig =
  cfg_baseUrl :: "string option"
  cfg_fetch :: "'w FetchLike option"
  cfg_paymentClient :: "'w FetchLike option"

record 'w LimenClient =
  baseUrl :: string
  fetchFn :: "'w FetchLike"
  paymentClient :: "'w FetchLike option"

text \<open>The constructor removes one trailing slash from the base URL.\<close>

definition strip_trailing_slash :: "string \<Rightarrow> string" where
  "strip_trailing_slash u = (if u \<noteq> [] \<and> last u = CHR ''/'' then butlast u else u)"

definition new_LimenClient ::
  "'w FetchLike option \<Rightarrow> 'w LimenClientConfig \<Rightarrow> thrown + 'w LimenClient" where
  "new_LimenClient defaultFetchFn config =
     (case assertFetch defaultFetchFn (cfg_fetch config) of
        Inl e \<Rightarrow> Inl e
      | Inr f \<Rightarrow>
          Inr \<lparr>baseUrl = strip_trailing_slash
                  (case cfg_baseUrl config of None \<Rightarrow> ''https://api.limen.trade'' | Some b \<Rightarrow> b),
               fetchFn = f,
               paymentClient = cfg_paymentClient config\<rparr>)"

definition setPaymentClient :: "'w LimenClient \<Rightarrow> 'w FetchLike \<Rightarrow> 'w LimenClient" where
  "setPaymentClient c p = c\<lparr>paymentClient := Some p\<rparr>"

definition getToken :: "(string option, 'w sdk_state) io" where
  "getToken = store_getToken"

definition setToken :: "string \<Rightarrow> (unit, 'w sdk_state) io" where
  "setToken token = store_setToken token"

definition clearToken :: "(unit, 'w sdk_state) io" where
  "clearToken = store_clearToken"

definition unauthenticated :: thrown where
  "unauthenticated = ErrorObj ''No JWT is stored. Authenticate before making API requests.''"

definition auth_expired :: thrown where
  "auth_expired = ErrorObj ''Unauthorized: JWT expired or invalid. Re-authenticate and try again.''"

text \<open>\<open>requireToken\<close>: \<open>!token\<close> holds of \<open>null\<close> and of the empty string.\<close>

definition requireToken :: "(string, 'w sdk_state) io" where
  "requireToken =
     await getToken (\<lambda>token.
       case token of
         None \<Rightarrow> throw unauthenticated
       | Some t \<Rightarrow> if t = [] then throw unauthenticated else resolve t)"

record fetch_init =
  init_method :: "string option"
  init_body :: "string option"

definition authorizedFetch :: "'w LimenClient \<Rightarrow> string \<Rightarrow> fetch_init \<Rightarrow> (response, 'w sdk_state) io" where
  "authorizedFetch c path init =
     await requireToken (\<lambda>token.
       let headers =
             [(''Authorization'', ''Bearer '' @ token)]
               @ (case init_body init of
                    None \<Rightarrow> []
                  | Some b \<Rightarrow> if b = [] then [] else [(''Content-Type'', ''application/json'')])
       in await (call_fetch (fetchFn c) (baseUrl c @ path)
                   \<lparr>req_method = Some (case init_method init of None \<Rightarrow> ''POST'' | Some m \<Rightarrow> m),
                    req_headers = Some headers,
                    req_body = init_body init\<rparr>)
            (\<lambda>res.
               if status res = 401 then await clearToken (\<lambda>_. throw auth_expired)
               else if status res \<ge> 400 then
                 await (settled (res_text res)) (\<lambda>bodyText.
                   throw (ErrorObj (''Request failed ('' @ String_of_int (status res) @ ''): ''
                                      @ bodyText)))
               else resolve res))"

subsection \<open>getHistory\<close>

text \<open>\<open>HistoryQueryOptions\<close>: \<open>limit\<close> is a number or the string \<open>"all"\<close>.\<close>

datatype limit_value = LimitNumber int | LimitAll

record HistoryQueryOptions =
  opt_page :: "int option"
  opt_limit :: "limit_value option"
  opt_all :: "bool option"

text \<open>
  \<open>URLSearchParams\<close>: an ordered list of pairs. \<open>set\<close> replaces the first pair of the
  name and removes the others, or appends; \<open>toString\<close> is the form-urlencoded
  serialisation.
\<close>

fun params_set :: "string \<Rightarrow> string \<Rightarrow> (string \<times> string) list \<Rightarrow> (string \<times> string) list" where
  "params_set k v [] = [(k, v)]"
| "params_set k v (p # ps) =
     (if fst p = k then (k, v) # filter (\<lambda>q. fst q \<noteq> k) ps else p # params_set k v ps)"

definition HEX_digit :: "nat \<Rightarrow> char" where
  "HEX_digit n = ''0123456789ABCDEF'' ! (n mod 16)"

definition urlencode_char :: "char \<Rightarrow> string" where
  "urlencode_char c =
     (if c = CHR '' '' then ''+''
      else if c \<in> set ''*-._0123456789ABCDEFGHIJKLMNOPQRSTUVWXYZabcdefghijklmnopqrstuvwxyz''
        then [c]
      else [CHR ''%'', HEX_digit (of_char c div 16), HEX_digit (of_char c)])"

definition urlencode :: "string \<Rightarrow> string" where
  "urlencode s = concat (map urlencode_char s)"

definition params_toString :: "(string \<times> string) list \<Rightarrow> string" where
  "params_toString ps = join_sep ''&'' (map (\<lambda>p. urlencode (fst p) @ ''='' @ urlencode (snd p)) ps)"

definition history_params :: "HistoryQueryOptions \<Rightarrow> (string \<times> string) list" where
  "history_params options =
     (let params = [];
          params =
            (if opt_all options = Some True then params_set ''all'' ''true'' params
             else (case opt_limit options of
                     None \<Rightarrow> params
                   | Some LimitAll \<Rightarrow> params_set ''limit'' ''all'' params
                   | Some (LimitNumber n) \<Rightarrow>
                       if n \<noteq> 0 then params_set ''limit'' (String_of_int n) params else params));
          params =
            (case opt_page options of
               None \<Rightarrow> params
             | Some p \<Rightarrow> if p \<noteq> 0 then params_set ''page'' (String_of_int p) params else params)
      in params)"

definition history_path :: "HistoryQueryOptions \<Rightarrow> string" where
  "history_path options =
     (let query = params_toString (history_params options)
      in ''/api/history'' @ (if query \<noteq> [] then ''?'' @ query else []))"

record HistoryListResponse =
  history :: jsvalue
  pagination :: jsvalue

definition getHistory :: "'w LimenClient \<Rightarrow> HistoryQueryOptions \<Rightarrow> (HistoryListResponse, 'w sdk_state) io" where
  "getHistory c options =
     await (authorizedFetch c (history_path options) \<lparr>init_method = None, init_body = None\<rparr>)
       (\<lambda>res.
     await (settled (parseJson res)) (\<lambda>data.
     await (settled (get_prop data ''history'')) (\<lambda>h.
     await (settled (get_prop data ''pagination'')) (\<lambda>p.
       resolve \<lparr>history = (if isArray h then h else JArr []),
                pagination = nullish_or p JNull\<rparr>))))"

subsection \<open>requestSignal\<close>

record SignalRequestOptions =
  ticker :: string
  timeframe :: "string option"
  metadata :: "jsvalue option"

definition no_payment_client :: thrown where
  "no_payment_client = ErrorObj
     ''No payment client configured. Use setPaymentClient() with an x402-enabled fetch client.''"

definition payment_required :: thrown where
  "payment_required = ErrorObj
     ''Payment required. The provided payment client did not complete the x402 flow.''"

definition undefined_or :: "jsvalue option \<Rightarrow> jsvalue" where
  "undefined_or v = (case v of None \<Rightarrow> JUndefined | Some x \<Rightarrow> x)"

definition signal_body :: "SignalRequestOptions \<Rightarrow> string" where
  "signal_body options =
     JSON_stringify
       [(''ticker'', JStr (ticker options)),
        (''timeframe'', JStr (case timeframe options of None \<Rightarrow> ''1d'' | Some t \<Rightarrow> t)),
        (''metadata'', undefined_or (metadata options))]"

definition requestSignal :: "'w LimenClient \<Rightarrow> SignalRequestOptions \<Rightarrow> (jsvalue, 'w sdk_state) io" where
  "requestSignal c options =
     (case paymentClient c of
        None \<Rightarrow> throw no_payment_client
      | Some pay \<Rightarrow>
          await requireToken (\<lambda>token.
            let body = signal_body options
            in await (call_payment_fetch pay (baseUrl c @ ''/api/analyze/signal'')
                        \<lparr>req_method = Some ''POST'',
                         req_headers = Some [(''Content-Type'', ''application/json''),
                                             (''Authorization'', ''Bearer '' @ token)],
                         req_body = Some body\<rparr>)
                 (\<lambda>res.
                    if status res = 401 then await clearToken (\<lambda>_. throw auth_expired)
                    else if status res = 402 then throw payment_required
                    else if status res \<ge> 400 then
                      await (settled (res_text res)) (\<lambda>bodyText.
                        throw (ErrorObj (''Signal request failed ('' @ String_of_int (status res)
                                           @ ''): '' @ bodyText)))
                    else settled (parseJson res))))"

section \<open>auth.ts\<close>

type_synonym bytes = "8 word list"

text \<open>
  The libraries auth.ts calls are collaborators: base58 (\<open>bs58\<close>) and Ed25519
  (\<open>tweetnacl\<close>). \<open>bs58.decode\<close> throws on a string that is not base58;
  \<open>nacl.sign.detached\<close> throws on a secret key of the wrong size. The two key-pair
  functions return the public and the secret key.
\<close>

record crypto =
  bs58_encode :: "bytes \<Rightarrow> string"
  bs58_decode :: "string \<Rightarrow> thrown + bytes"
  keyPair_fromSeed :: "bytes \<Rightarrow> bytes \<times> bytes"
  keyPair_fromSecretKey :: "bytes \<Rightarrow> bytes \<times> bytes"
  sign_detached :: "bytes \<Rightarrow> bytes \<Rightarrow> thrown + bytes"

text \<open>\<open>WalletMessageSigner\<close>: the wallet signs outside the SDK and may reject.\<close>

record 'w WalletMessageSigner =
  address :: string
  signMessage :: "bytes \<Rightarrow> (bytes, 'w) io"

definition call_signMessage :: "'w WalletMessageSigner \<Rightarrow> bytes \<Rightarrow> (bytes, 'w sdk_state) io" where
  "call_signMessage wallet message =
     (\<lambda>s. case signMessage wallet message (world s) of
            (r, w') \<Rightarrow> (r, s\<lparr>world := w', calls := calls s @ [SignMessage message]\<rparr>))"

text \<open>
  \<open>new TextEncoder().encode(v)\<close>: the bytes of \<open>String(v)\<close>, and no bytes for
  \<open>undefined\<close>; it throws when the conversion to a string does.
\<close>

definition TextEncoder_encode :: "jsvalue \<Rightarrow> thrown + bytes" where
  "TextEncoder_encode v =
     (if v = JUndefined then Inr []
      else (case ToString v of Inl e \<Rightarrow> Inl e | Inr str \<Rightarrow> Inr (map of_char str)))"

definition fetchChallenge :: "string \<Rightarrow> 'w FetchLike \<Rightarrow> (jsvalue, 'w sdk_state) io" where
  "fetchChallenge base f =
     await (call_fetch f (base @ ''/api/auth/challenge'')
              \<lparr>req_method = Some ''GET'', req_headers = None, req_body = None\<rparr>)
       (\<lambda>res.
          if status res \<ge> 400 then
            await (settled (res_text res)) (\<lambda>body.
              throw (ErrorObj (''Challenge fetch failed ('' @ String_of_int (status res) @ ''): ''
                                 @ body)))
          else settled (parseJson res))"

text \<open>
  \<open>exchangeSignatureForToken\<close>; \<open>exchange_init\<close> is the request it sends.
  \<open>res.status >= 400 || !body.token\<close> reads
  \<open>body.token\<close> only when the status is below 400; \<open>body.error || `Auth failed (...)`\<close>
  is the message, which \<open>new Error\<close> turns into a string (or throws, when the value
  has no string form).
\<close>

definition auth_failure :: "response \<Rightarrow> jsvalue \<Rightarrow> ('a, 's) io" where
  "auth_failure res body =
     await (settled (get_prop body ''error'')) (\<lambda>err.
       if truthy err then
         await (settled (ToString err)) (\<lambda>message. throw (ErrorObj message))
       else throw (ErrorObj (''Auth failed ('' @ String_of_int (status res) @ '')'')))"

definition exchange_init :: "string \<Rightarrow> string \<Rightarrow> jsvalue \<Rightarrow> request" where
  "exchange_init wallet signature challengeToken =
     \<lparr>req_method = Some ''POST'',
      req_headers = Some [(''Content-Type'', ''application/json'')],
      req_body = Some (JSON_stringify
         [(''wallet'', JStr wallet),
          (''signature'', JStr signature),
          (''challengeToken'', challengeToken)])\<rparr>"

definition exchangeSignatureForToken ::
  "string \<Rightarrow> string \<Rightarrow> string \<Rightarrow> jsvalue \<Rightarrow> 'w FetchLike \<Rightarrow> (jsvalue, 'w sdk_state) io" where
  "exchangeSignatureForToken base wallet signature challengeToken f =
     await (call_fetch f (base @ ''/api/auth'') (exchange_init wallet signature challengeToken))
       (\<lambda>res.
     await (settled (parseJson res)) (\<lambda>body.
       if status res \<ge> 400 then auth_failure res body
       else await (settled (get_prop body ''token'')) (\<lambda>token.
              if \<not> truthy token then auth_failure res body else resolve token)))"

text \<open>
  The result of an authentication: the token as the server sent it, and the wallet.
\<close>

record auth_result =
  auth_token :: jsvalue
  auth_wallet :: string

definition authenticateWithWallet ::
  "'w FetchLike option \<Rightarrow> crypto \<Rightarrow> string \<Rightarrow> 'w WalletMessageSigner \<Rightarrow> 'w FetchLike option
     \<Rightarrow> (auth_result, 'w sdk_state) io" where
  "authenticateWithWallet defaultFetchFn cr base wallet fetchArg =
     await (settled (assertFetch defaultFetchFn fetchArg)) (\<lambda>resolvedFetch.
     await (fetchChallenge base resolvedFetch) (\<lambda>ch.
     await (settled (get_prop ch ''challenge'')) (\<lambda>challenge.
     await (settled (get_prop ch ''challengeToken'')) (\<lambda>challengeToken.
     await (settled (TextEncoder_encode challenge)) (\<lambda>message.
     await (call_signMessage wallet message) (\<lambda>signatureBytes.
     let signature = bs58_encode cr signatureBytes
     in await (exchangeSignatureForToken base (address wallet) signature challengeToken
                 resolvedFetch) (\<lambda>token.
          resolve \<lparr>auth_token = token, auth_wallet = address wallet\<rparr>)))))))"

text \<open>
  \<open>SecretKeyInput\<close>: a base58 string, a byte array, an array of numbers, or a
  \<open>Keypair\<close> (its public key in base58 and its secret key).
\<close>

datatype SecretKeyInput =
    KeyString string
  | KeyBytes bytes
  | KeyNumbers "int list"
  | KeyKeypair string bytes

fun isKeypair :: "SecretKeyInput \<Rightarrow> bool" where
  "isKeypair (KeyKeypair pk sk) = True"
| "isKeypair _ = False"

text \<open>
  The bytes \<open>keyBytes\<close> of an input that is not a \<open>Keypair\<close>; \<open>Uint8Array.from\<close>
  reduces each number modulo 256. (A \<open>Keypair\<close> returns before \<open>keyBytes\<close> is
  computed; the last equation only makes the function total.)
\<close>

fun keyBytes :: "crypto \<Rightarrow> SecretKeyInput \<Rightarrow> thrown + bytes" where
  "keyBytes cr (KeyString str) = bs58_decode cr str"
| "keyBytes cr (KeyBytes b) = Inr b"
| "keyBytes cr (KeyNumbers ns) = Inr (map word_of_int ns)"
| "keyBytes cr (KeyKeypair pk sk) = Inr sk"

definition bad_key_length :: thrown where
  "bad_key_length = ErrorObj ''Secret key must be 32-byte seed or 64-byte secret key.''"

record normalized_key =
  nk_wallet :: string
  nk_secretKey :: bytes

definition normalizeSecretKey :: "crypto \<Rightarrow> SecretKeyInput \<Rightarrow> thrown + normalized_key" where
  "normalizeSecretKey cr input =
     (case input of
        KeyKeypair pk sk \<Rightarrow> Inr \<lparr>nk_wallet = pk, nk_secretKey = sk\<rparr>
      | _ \<Rightarrow>
          (case keyBytes cr input of
             Inl e \<Rightarrow> Inl e
           | Inr kb \<Rightarrow>
               if length kb = 32 then
                 (let pair = keyPair_fromSeed cr kb
                  in Inr \<lparr>nk_wallet = bs58_encode cr (fst pair), nk_secretKey = snd pair\<rparr>)
               else if length kb = 64 then
                 (let pair = keyPair_fromSecretKey cr kb
                  in Inr \<lparr>nk_wallet = bs58_encode cr (fst pair), nk_secretKey = snd pair\<rparr>)
               else Inl bad_key_length))"

definition authenticateWithSecretKey ::
  "'w FetchLike option \<Rightarrow> crypto \<Rightarrow> string \<Rightarrow> SecretKeyInput \<Rightarrow> 'w FetchLike option
     \<Rightarrow> (auth_result, 'w sdk_state) io" where
  "authenticateWithSecretKey defaultFetchFn cr base secretKey fetchArg =
     await (settled (assertFetch defaultFetchFn fetchArg)) (\<lambda>resolvedFetch.
     await (settled (normalizeSecretKey cr secretKey)) (\<lambda>nk.
     await (fetchChallenge base resolvedFetch) (\<lambda>ch.
     await (settled (get_prop ch ''challenge'')) (\<lambda>challenge.
     await (settled (get_prop ch ''challengeToken'')) (\<lambda>challengeToken.
     await (settled (TextEncoder_encode challenge)) (\<lambda>message.
     await (settled (sign_detached cr message (nk_secretKey nk))) (\<lambda>sig.
       let signature = bs58_encode cr sig
       in await (exchangeSignatureForToken base (nk_wallet nk) signature challengeToken
                   resolvedFetch) (\<lambda>token.
            resolve \<lparr>auth_token = token, auth_wallet = nk_wallet nk\<rparr>))))))))"

section \<open>The keypair payment client\<close>

text \<open>
  \<open>createKeypairPaymentClient\<close> wraps the x402 client (\<open>baseClient\<close>, from
  \<open>x402-solana\<close>) and talks to the chain through a \<open>Connection\<close>. Both are
  collaborators acting on the outside world \<open>'v\<close>; \<open>sendOptions\<close> is fixed inside
  \<open>sendRawTransaction\<close>. Public keys and program ids are written in base58.
\<close>

record account_info =
  acct_owner :: "string option"

text \<open>
  The transaction that creates the associated token account, by the values the source
  hands to the instruction and transaction builders of the libraries.
\<close>

record transaction =
  ix_payer :: string
  ix_associatedToken :: string
  ix_owner :: string
  ix_mint :: string
  ix_programId :: string
  recentBlockhash :: string
  feePayer :: string
  signer :: string

record 'v payment_env =
  baseClient_fetch :: "'v FetchLike"
  new_PublicKey :: "string \<Rightarrow> thrown + string"
  getAccountInfo :: "string \<Rightarrow> (account_info option, 'v) io"
  getAssociatedTokenAddress :: "string \<Rightarrow> string \<Rightarrow> string \<Rightarrow> thrown + string"
  getLatestBlockhash :: "(string \<times> nat, 'v) io"
  sendRawTransaction :: "transaction \<Rightarrow> (string, 'v) io"
  confirmTransaction :: "string \<Rightarrow> string \<Rightarrow> nat \<Rightarrow> (unit, 'v) io"

definition TOKEN_PROGRAM_ID :: string where
  "TOKEN_PROGRAM_ID = ''TokenkegQfeZyiNwAJbNbGKPFXCWuBvf9Ss623VQ5DA''"

definition TOKEN_2022_PROGRAM_ID :: string where
  "TOKEN_2022_PROGRAM_ID = ''TokenzQdBNbLqP5VEhdkAS6EPFLC1PHnBqCXEpPxuEb''"

definition NETWORK :: string where
  "NETWORK = ''solana''"

text \<open>
  The state of a run of the adapter: the outside world and the record of the calls to the
  wrapped client and of the remediations started, in order.
\<close>

datatype pay_call = BaseFetch string request | EnsureAta string

record 'v pay_state =
  chain :: 'v
  pay_calls :: "pay_call list"

definition on_chain :: "('a, 'v) io \<Rightarrow> ('a, 'v pay_state) io" where
  "on_chain m = (\<lambda>s. case m (chain s) of (r, v') \<Rightarrow> (r, s\<lparr>chain := v'\<rparr>))"

definition call_baseClient :: "'v payment_env \<Rightarrow> string \<Rightarrow> request \<Rightarrow> (response, 'v pay_state) io" where
  "call_baseClient env input init =
     (\<lambda>s. case baseClient_fetch env input init (chain s) of
            (r, v') \<Rightarrow> (r, s\<lparr>chain := v', pay_calls := pay_calls s @ [BaseFetch input init]\<rparr>))"

definition ensure_body :: "'v payment_env \<Rightarrow> string \<Rightarrow> string \<Rightarrow> (unit, 'v pay_state) io" where
  "ensure_body env owner mintAddress =
     await (settled (new_PublicKey env mintAddress)) (\<lambda>mintPubkey.
     await (on_chain (getAccountInfo env mintPubkey)) (\<lambda>mintInfo.
       case mintInfo of
         None \<Rightarrow>
           throw (ErrorObj (''Token mint '' @ mintAddress @ '' does not exist on '' @ NETWORK))
       | Some info \<Rightarrow>
           let programId =
                 (if acct_owner info = Some TOKEN_2022_PROGRAM_ID then TOKEN_2022_PROGRAM_ID
                  else TOKEN_PROGRAM_ID)
           in await (settled (getAssociatedTokenAddress env mintPubkey owner programId)) (\<lambda>ata.
              await (on_chain (getAccountInfo env ata)) (\<lambda>ataInfo.
                case ataInfo of
                  Some a \<Rightarrow> resolve ()
                | None \<Rightarrow>
                    await (on_chain (getLatestBlockhash env)) (\<lambda>bh.
                      let createAtaTx =
                            \<lparr>ix_payer = owner, ix_associatedToken = ata, ix_owner = owner,
                             ix_mint = mintPubkey, ix_programId = programId,
                             recentBlockhash = fst bh, feePayer = owner, signer = owner\<rparr>
                      in await (on_chain (sendRawTransaction env createAtaTx)) (\<lambda>signature.
                         await (on_chain (confirmTransaction env signature (fst bh) (snd bh)))
                           (\<lambda>u. resolve ())))))))"

text \<open>\<open>ensureAssociatedTokenAccount\<close>: the remediation; each start is recorded.\<close>

definition ensureAssociatedTokenAccount ::
  "'v payment_env \<Rightarrow> string \<Rightarrow> string \<Rightarrow> (unit, 'v pay_state) io" where
  "ensureAssociatedTokenAccount env owner mintAddress =
     (\<lambda>s. ensure_body env owner mintAddress
            (s\<lparr>pay_calls := pay_calls s @ [EnsureAta mintAddress]\<rparr>))"

text \<open>
  \<open>message.match(/Associated Token Account for ([1-9A-HJ-NP-Za-km-z]{32,44})/)\<close>: the
  leftmost place where the literal text is followed by at least 32 characters of the
  base58 alphabet; the group takes as many of them as it can, up to 44.
\<close>

definition base58_char :: "char \<Rightarrow> bool" where
  "base58_char c = (c \<in> set ''123456789ABCDEFGHJKLMNPQRSTUVWXYZabcdefghijkmnopqrstuvwxyz'')"

fun mintMatch :: "string \<Rightarrow> string option" where
  "mintMatch [] = None"
| "mintMatch (c # cs) =
     (let run = takeWhile base58_char (drop 29 (c # cs))
      in if prefix ''Associated Token Account for '' (c # cs) \<and> 32 \<le> length run
         then Some (take 44 run)
         else mintMatch cs)"

text \<open>
  \<open>err instanceof Error ? err.message : String(err)\<close>; the conversion of a thrown value
  that is no \<open>Error\<close> may itself throw.
\<close>

definition error_message :: "thrown \<Rightarrow> thrown + string" where
  "error_message err = (case err of ErrorObj m \<Rightarrow> Inr m | ThrownValue v \<Rightarrow> ToString v)"

text \<open>The \<open>fetch\<close> of the payment client that \<open>createKeypairPaymentClient\<close> returns.\<close>

definition keypair_fetch :: "'v payment_env \<Rightarrow> string \<Rightarrow> ('v pay_state) FetchLike" where
  "keypair_fetch env owner input init =
     (\<lambda>s. case call_baseClient env input init s of
            (Inr res, s') \<Rightarrow> (Inr res, s')
          | (Inl err, s') \<Rightarrow>
              (case error_message err of
                 Inl e \<Rightarrow> (Inl e, s')
               | Inr message \<Rightarrow>
                   (case mintMatch message of
                      Some mint \<Rightarrow>
                        await (ensureAssociatedTokenAccount env owner mint)
                          (\<lambda>u. call_baseClient env input init) s'
                    | None \<Rightarrow> (Inl err, s'))))"

text \<open>Counting in a record of calls: remediations started, calls to the wrapped client.\<close>

fun is_EnsureAta :: "pay_call \<Rightarrow> bool" where
  "is_EnsureAta (EnsureAta mint) = True"
| "is_EnsureAta (BaseFetch input init) = False"

definition remediations :: "pay_call list \<Rightarrow> nat" where
  "remediations evs = length (filter is_EnsureAta evs)"

definition base_fetches :: "pay_call list \<Rightarrow> nat" where
  "base_fetches evs = length (filter (\<lambda>e. \<not> is_EnsureAta e) evs)"

section \<open>Example runs\<close>

text \<open>
  A transport that answers every request with a fixed status, document and body text, a
  client over it with the same transport as payment client, and a starting state.
\<close>

definition reply :: "int \<Rightarrow> jsvalue \<Rightarrow> string \<Rightarrow> nat FetchLike" where
  "reply st doc txt url init w =
     (Inr \<lparr>status = st, res_json = Inr doc, res_text = Inr txt\<rparr>, Suc w)"

definition demo_client :: "nat FetchLike \<Rightarrow> nat LimenClient" where
  "demo_client f =
     \<lparr>baseUrl = ''https://api.limen.trade'', fetchFn = f, paymentClient = Some f\<rparr>"

definition no_options :: HistoryQueryOptions where
  "no_options = \<lparr>opt_page = None, opt_limit = None, opt_all = None\<rparr>"

definition sol_signal :: SignalRequestOptions where
  "sol_signal = \<lparr>ticker = ''SOL'', timeframe = None, metadata = None\<rparr>"

definition body_used :: thrown where
  "body_used = ErrorObj ''Body is unusable: Body has already been read''"

definition state0 :: "string option \<Rightarrow> nat sdk_state" where
  "state0 tok = \<lparr>tokenStore = tok, world = 0, calls = []\<rparr>"

text \<open>
  An authentication server: it issues a challenge, and answers the exchange with a fixed
  status, decoding result and result of reading the body text. A wallet that signs by
  echoing the message, and stand-ins for the base58 and Ed25519 libraries (the theorems
  hold for every library).
\<close>

definition auth_server :: "int \<Rightarrow> thrown + jsvalue \<Rightarrow> thrown + string \<Rightarrow> nat FetchLike" where
  "auth_server st doc txt url init w =
     (if url = ''https://api.limen.trade/api/auth/challenge''
      then Inr \<lparr>status = 200,
                res_json = Inr (JObj [(''challenge'', JStr ''sign me''),
                                      (''challengeToken'', JStr ''c1'')]),
                res_text = Inr []\<rparr>
      else Inr \<lparr>status = st, res_json = doc, res_text = txt\<rparr>,
      Suc w)"

definition echo_wallet :: "nat WalletMessageSigner" where
  "echo_wallet = \<lparr>address = ''Wa11et'', signMessage = (\<lambda>m w. (Inr m, w))\<rparr>"

definition toy_crypto :: crypto where
  "toy_crypto =
     \<lparr>bs58_encode = (\<lambda>bs. replicate (length bs) CHR ''z''),
      bs58_decode = (\<lambda>str. Inr (map of_char str)),
      keyPair_fromSeed = (\<lambda>seed. (seed, seed @ seed)),
      keyPair_fromSecretKey = (\<lambda>sk. (drop 32 sk, sk)),
      sign_detached = (\<lambda>m sk. Inr (take 2 sk))\<rparr>"

text \<open>
  A payment setting in which the wrapped client always fails for want of the associated
  token account of one mint. The mint's account is known to the chain or not; the token
  account itself is never found, so a remediation that gets that far creates it.
\<close>

definition usdc_mint :: string where
  "usdc_mint = ''EPjFWdd5AufqSSqeM2qN1xzybapC8G4wEGGkZwyTDt1v''"

definition missing_account_message :: string where
  "missing_account_message =
     ''Payment failed: Associated Token Account for '' @ usdc_mint @ '' not found''"

definition missing_account :: thrown where
  "missing_account = ErrorObj missing_account_message"

definition broke_env :: "bool \<Rightarrow> nat payment_env" where
  "broke_env mint_known =
     \<lparr>baseClient_fetch = (\<lambda>url init v. (Inl missing_account, Suc v)),
      new_PublicKey = (\<lambda>a. Inr a),
      getAccountInfo = (\<lambda>a v.
        (Inr (if mint_known \<and> a = usdc_mint then Some \<lparr>acct_owner = Some TOKEN_PROGRAM_ID\<rparr>
              else None), v)),
      getAssociatedTokenAddress = (\<lambda>mint owner programId. Inr (''ata-'' @ mint)),
      getLatestBlockhash = (\<lambda>v. (Inr (''blockhash'', 100), v)),
      sendRawTransaction = (\<lambda>tx v. (Inr ''txsig'', v)),
      confirmTransaction = (\<lambda>sg bh h v. (Inr (), v))\<rparr>"

definition signal_init :: request where
  "signal_init = \<lparr>req_method = Some ''POST'', req_headers = None, req_body = Some ''{}''\<rparr>"

definition pay0 :: "nat pay_state" where
  "pay0 = \<lparr>chain = 0, pay_calls = []\<rparr>"

section \<open>The gateway: token, request, status\<close>

text \<open>Reading the token: absent, empty, present.\<close>

lemmas io_defs = resolve_def throw_def await_def settled_def
lemmas store_defs = getToken_def setToken_def clearToken_def store_getToken_def
  store_setToken_def store_clearToken_def

lemma requireToken_absent:
  "tokenStore s = None \<Longrightarrow> requireToken s = (Inl unauthenticated, s)"
  by (simp add: requireToken_def io_defs store_defs)

lemma requireToken_empty:
  "tokenStore s = Some [] \<Longrightarrow> requireToken s = (Inl unauthenticated, s)"
  by (simp add: requireToken_def io_defs store_defs)

lemma requireToken_present:
  "tokenStore s = Some t \<Longrightarrow> t \<noteq> [] \<Longrightarrow> requireToken s = (Inr t, s)"
  by (simp add: requireToken_def io_defs store_defs)

lemma await_Inl: "m s = (Inl e, s') \<Longrightarrow> await m k s = (Inl e, s')"
  by (simp add: await_def)

lemma await_Inr: "m s = (Inr x, s') \<Longrightarrow> await m k s = k x s'"
  by (simp add: await_def)

lemma authorizedFetch_unauth:
  "requireToken s = (Inl e, s) \<Longrightarrow> authorizedFetch c path init s = (Inl e, s)"
  by (simp add: authorizedFetch_def await_Inl)

lemma getHistory_unauth:
  "requireToken s = (Inl e, s) \<Longrightarrow> getHistory c options s = (Inl e, s)"
  by (simp add: getHistory_def await_Inl authorizedFetch_unauth)

lemma requestSignal_unauth:
  "paymentClient c = Some pay \<Longrightarrow> requireToken s = (Inl e, s) \<Longrightarrow> requestSignal c options s = (Inl e, s)"
  by (simp add: requestSignal_def await_Inl)

text \<open>
  A 401 answer: the token store is cleared, then the auth-expired error is raised. The
  request is the one the call sends once the token is read.
\<close>

lemma authorizedFetch_401:
  assumes "tokenStore s = Some t" "t \<noteq> []"
    and "fetchFn c (baseUrl c @ path)
           \<lparr>req_method = Some (case init_method init of None \<Rightarrow> ''POST'' | Some m \<Rightarrow> m),
            req_headers = Some ([(''Authorization'', ''Bearer '' @ t)]
               @ (case init_body init of None \<Rightarrow> []
                  | Some b \<Rightarrow> if b = [] then [] else [(''Content-Type'', ''application/json'')])),
            req_body = init_body init\<rparr> (world s) = (Inr res, w')"
    and "status res = 401"
  shows "authorizedFetch c path init s =
           (Inl auth_expired,
            s\<lparr>world := w',
              calls := calls s @ [Fetch (baseUrl c @ path)
                 \<lparr>req_method = Some (case init_method init of None \<Rightarrow> ''POST'' | Some m \<Rightarrow> m),
                  req_headers = Some ([(''Authorization'', ''Bearer '' @ t)]
                     @ (case init_body init of None \<Rightarrow> []
                        | Some b \<Rightarrow> if b = [] then [] else [(''Content-Type'', ''application/json'')])),
                  req_body = init_body init\<rparr>],
              tokenStore := None\<rparr>)"
  using assms
  by (simp add: authorizedFetch_def requireToken_present call_fetch_def await_def throw_def Let_def
      clearToken_def store_clearToken_def)

lemma getHistory_401:
  assumes "tokenStore s = Some t" "t \<noteq> []"
    and "fetchFn c (baseUrl c @ history_path options)
           \<lparr>req_method = Some ''POST'',
            req_headers = Some [(''Authorization'', ''Bearer '' @ t)],
            req_body = None\<rparr> (world s) = (Inr res, w')"
    and "status res = 401"
  shows "getHistory c options s =
           (Inl auth_expired,
            s\<lparr>world := w',
              calls := calls s @ [Fetch (baseUrl c @ history_path options)
                 \<lparr>req_method = Some ''POST'',
                  req_headers = Some [(''Authorization'', ''Bearer '' @ t)],
                  req_body = None\<rparr>],
              tokenStore := None\<rparr>)"
  using authorizedFetch_401 [of s t c "history_path options" "\<lparr>init_method = None, init_body = None\<rparr>" res w'] assms
  by (simp add: getHistory_def await_Inl)

lemma requestSignal_401:
  assumes "tokenStore s = Some t" "t \<noteq> []" "paymentClient c = Some pay"
    and "pay (baseUrl c @ ''/api/analyze/signal'')
           \<lparr>req_method = Some ''POST'',
            req_headers = Some [(''Content-Type'', ''application/json''),
                                (''Authorization'', ''Bearer '' @ t)],
            req_body = Some (signal_body sopts)\<rparr> (world s) = (Inr res, w')"
    and "status res = 401"
  shows "requestSignal c sopts s =
           (Inl auth_expired,
            s\<lparr>world := w',
              calls := calls s @ [PaymentFetch (baseUrl c @ ''/api/analyze/signal'')
                 \<lparr>req_method = Some ''POST'',
                  req_headers = Some [(''Content-Type'', ''application/json''),
                                      (''Authorization'', ''Bearer '' @ t)],
                  req_body = Some (signal_body sopts)\<rparr>],
              tokenStore := None\<rparr>)"
  using assms
  by (simp add: requestSignal_def requireToken_present call_payment_fetch_def await_def Let_def
      throw_def clearToken_def store_clearToken_def)

text \<open>The calls each operation records, whatever the transport answers.\<close>

lemma authorizedFetch_calls:
  "calls (snd (authorizedFetch c path init s)) =
     calls s @ (case tokenStore s of
                  None \<Rightarrow> []
                | Some t \<Rightarrow>
                    if t = [] then []
                    else [Fetch (baseUrl c @ path)
                       \<lparr>req_method = Some (case init_method init of None \<Rightarrow> ''POST'' | Some m \<Rightarrow> m),
                        req_headers = Some ([(''Authorization'', ''Bearer '' @ t)]
                          @ (case init_body init of None \<Rightarrow> []
                             | Some b \<Rightarrow> if b = [] then []
                                 else [(''Content-Type'', ''application/json'')])),
                        req_body = init_body init\<rparr>])"
proof (cases "tokenStore s")
  case None
  then show ?thesis
    by (simp add: authorizedFetch_unauth requireToken_absent)
next
  case (Some t)
  show ?thesis
  proof (cases "t = []")
    case True
    with Some show ?thesis
      by (simp add: authorizedFetch_unauth requireToken_empty)
  next
    case False
    with Some show ?thesis
      by (simp add: authorizedFetch_def requireToken_present call_fetch_def await_def throw_def
          resolve_def settled_def Let_def clearToken_def store_clearToken_def
          split: prod.splits sum.splits)
  qed
qed

lemma getHistory_calls_eq:
  "calls (snd (getHistory c options s)) =
   calls (snd (authorizedFetch c (history_path options) \<lparr>init_method = None, init_body = None\<rparr> s))"
  by (simp add: getHistory_def await_def settled_def resolve_def split: prod.splits sum.splits)

lemma getHistory_calls:
  "calls (snd (getHistory c options s)) =
     calls s @ (case tokenStore s of
                  None \<Rightarrow> []
                | Some t \<Rightarrow>
                    if t = [] then []
                    else [Fetch (baseUrl c @ history_path options)
                       \<lparr>req_method = Some ''POST'',
                        req_headers = Some [(''Authorization'', ''Bearer '' @ t)],
                        req_body = None\<rparr>])"
  by (simp add: getHistory_calls_eq authorizedFetch_calls split: option.splits)

lemma requestSignal_calls:
  "calls (snd (requestSignal c sopts s)) =
     calls s @ (case paymentClient c of
                  None \<Rightarrow> []
                | Some pay \<Rightarrow>
                   (case tokenStore s of
                      None \<Rightarrow> []
                    | Some t \<Rightarrow>
                        if t = [] then []
                        else [PaymentFetch (baseUrl c @ ''/api/analyze/signal'')
                           \<lparr>req_method = Some ''POST'',
                            req_headers = Some [(''Content-Type'', ''application/json''),
                                                (''Authorization'', ''Bearer '' @ t)],
                            req_body = Some (signal_body sopts)\<rparr>]))"
proof (cases "paymentClient c")
  case None
  then show ?thesis by (simp add: requestSignal_def throw_def)
next
  case pc: (Some pay)
  show ?thesis
  proof (cases "tokenStore s")
    case None
    with pc show ?thesis
      by (simp add: requestSignal_unauth requireToken_absent)
  next
    case (Some t)
    show ?thesis
    proof (cases "t = []")
      case True
      with Some pc show ?thesis
        by (simp add: requestSignal_unauth requireToken_empty)
    next
      case False
      with Some pc show ?thesis
        by (simp add: requestSignal_def requireToken_present call_payment_fetch_def await_def
            throw_def resolve_def settled_def Let_def clearToken_def store_clearToken_def
            split: prod.splits sum.splits)
    qed
  qed
qed

subsection \<open>No token, no request\<close>

text \<open>
  C8. When the token store holds no token, an authorized call (the gateway itself,
  \<open>getHistory\<close>, and \<open>requestSignal\<close> with a payment client configured) fails with the
  unauthenticated error and leaves the state as it was: no call to a transport is recorded.
\<close>

theorem no_token_no_request:
  assumes "tokenStore s = None"
  shows "authorizedFetch c path init s = (Inl unauthenticated, s)
       \<and> getHistory c options s = (Inl unauthenticated, s)
       \<and> (paymentClient c = Some pay \<longrightarrow> requestSignal c sopts s = (Inl unauthenticated, s))
       \<and> calls (snd (authorizedFetch c path init s)) = calls s
       \<and> calls (snd (getHistory c options s)) = calls s
       \<and> (paymentClient c = Some pay \<longrightarrow> calls (snd (requestSignal c sopts s)) = calls s)"
  using requireToken_absent [OF assms]
  by (simp add: authorizedFetch_unauth getHistory_unauth requestSignal_unauth)

theorem no_token_no_request_witness:
  "tokenStore (state0 None) = None
   \<and> getHistory (demo_client (reply 200 (JObj []) ''{}'')) no_options (state0 None)
       = (Inl unauthenticated, state0 None)
   \<and> paymentClient (demo_client (reply 200 (JObj []) ''{}'')) = Some (reply 200 (JObj []) ''{}'')
   \<and> requestSignal (demo_client (reply 200 (JObj []) ''{}'')) sol_signal (state0 None)
       = (Inl unauthenticated, state0 None)
   \<and> calls (snd (getHistory (demo_client (reply 200 (JObj []) ''{}'')) no_options (state0 None)))
       = []"
  using no_token_no_request [of "state0 None" "demo_client (reply 200 (JObj []) ''{}'')"
      "''/api/history''" "\<lparr>init_method = None, init_body = None\<rparr>" no_options
      "reply 200 (JObj []) ''{}''" sol_signal]
  by (simp add: state0_def demo_client_def)

subsection \<open>Expired authorization\<close>

text \<open>
  C1. An authorized call (\<open>getHistory\<close>, or \<open>requestSignal\<close> with a payment client) is
  made while a non-empty token is stored, and the transport answers the request with
  status 401. Then the call fails with the auth-expired error, the token store is empty in
  the state in which the error is raised, and reading the token afterwards yields absent.
\<close>

theorem unauthorized_clears_token:
  assumes "tokenStore s = Some t" and "t \<noteq> []"
  shows "(fetchFn c (baseUrl c @ history_path options)
            \<lparr>req_method = Some ''POST'',
             req_headers = Some [(''Authorization'', ''Bearer '' @ t)],
             req_body = None\<rparr> (world s) = (Inr res, w') \<and> status res = 401
          \<longrightarrow> fst (getHistory c options s) = Inl auth_expired
              \<and> tokenStore (snd (getHistory c options s)) = None
              \<and> fst (getToken (snd (getHistory c options s))) = Inr None)
       \<and> (paymentClient c = Some pay
            \<and> pay (baseUrl c @ ''/api/analyze/signal'')
                 \<lparr>req_method = Some ''POST'',
                  req_headers = Some [(''Content-Type'', ''application/json''),
                                      (''Authorization'', ''Bearer '' @ t)],
                  req_body = Some (signal_body sopts)\<rparr> (world s) = (Inr res', w'')
            \<and> status res' = 401
          \<longrightarrow> fst (requestSignal c sopts s) = Inl auth_expired
              \<and> tokenStore (snd (requestSignal c sopts s)) = None
              \<and> fst (getToken (snd (requestSignal c sopts s))) = Inr None)"
  using getHistory_401 [OF assms, of c options res w']
    requestSignal_401 [OF assms, of c pay sopts res' w'']
  by (simp add: getToken_def store_getToken_def)

theorem unauthorized_clears_token_witness:
  "tokenStore (state0 (Some ''jwt'')) = Some ''jwt'' \<and> ''jwt'' \<noteq> []
   \<and> status \<lparr>status = 401, res_json = Inr JNull, res_text = Inr ''expired''\<rparr> = 401
   \<and> getHistory (demo_client (reply 401 JNull ''expired'')) no_options (state0 (Some ''jwt''))
       = (Inl auth_expired,
          \<lparr>tokenStore = None, world = 1,
           calls = [Fetch ''https://api.limen.trade/api/history''
                      \<lparr>req_method = Some ''POST'',
                       req_headers = Some [(''Authorization'', ''Bearer jwt'')],
                       req_body = None\<rparr>]\<rparr>)
   \<and> fst (requestSignal (demo_client (reply 401 JNull ''expired'')) sol_signal
            (state0 (Some ''jwt''))) = Inl auth_expired
   \<and> tokenStore (snd (requestSignal (demo_client (reply 401 JNull ''expired'')) sol_signal
            (state0 (Some ''jwt'')))) = None"
  using unauthorized_clears_token [of "state0 (Some ''jwt'')" "''jwt''"
      "demo_client (reply 401 JNull ''expired'')" no_options
      "\<lparr>status = 401, res_json = Inr JNull, res_text = Inr ''expired''\<rparr>" 1
      "reply 401 JNull ''expired''" sol_signal
      "\<lparr>status = 401, res_json = Inr JNull, res_text = Inr ''expired''\<rparr>" 1]
  by (simp add: state0_def demo_client_def reply_def no_options_def history_path_def
      history_params_def params_toString_def getHistory_def authorizedFetch_def
      requireToken_def getToken_def store_getToken_def clearToken_def store_clearToken_def
      call_fetch_def await_def throw_def resolve_def settled_def Let_def)

subsection \<open>The method of the history request\<close>

text \<open>
  A history call with a stored token sends its one request with the gateway's default
  method, which is \<open>POST\<close>: \<open>getHistory\<close> passes no method to \<open>authorizedFetch\<close>.
\<close>

theorem getHistory_method_counterexample:
  "calls (snd (getHistory (demo_client (reply 200 (JObj []) ''{}'')) no_options
                 (state0 (Some ''jwt''))))
     = [Fetch ''https://api.limen.trade/api/history''
          \<lparr>req_method = Some ''POST'',
           req_headers = Some [(''Authorization'', ''Bearer jwt'')],
           req_body = None\<rparr>]
   \<and> Some ''POST'' \<noteq> Some ''GET''"
  by (simp add: getHistory_calls state0_def demo_client_def no_options_def history_path_def
      history_params_def params_toString_def)

text \<open>
  C2 (as the code has it). Every \<open>getHistory\<close> call records exactly the requests below:
  none when the token is absent or empty, and otherwise one request to the base URL
  followed by \<open>/api/history\<close> and the query, with the method \<open>POST\<close>, the bearer header
  and no body.
\<close>

theorem getHistory_posts_to_history:
  "calls (snd (getHistory c options s)) =
     calls s @ (case tokenStore s of
                  None \<Rightarrow> []
                | Some t \<Rightarrow>
                    if t = [] then []
                    else [Fetch (baseUrl c @ history_path options)
                       \<lparr>req_method = Some ''POST'',
                        req_headers = Some [(''Authorization'', ''Bearer '' @ t)],
                        req_body = None\<rparr>])
   \<and> prefix ''/api/history'' (history_path options)"
  by (simp add: getHistory_calls history_path_def Let_def)

theorem getHistory_posts_to_history_witness:
  "calls (snd (getHistory (demo_client (reply 200 (JObj []) ''{}''))
                 \<lparr>opt_page = Some 2, opt_limit = Some (LimitNumber 20), opt_all = None\<rparr>
                 (state0 (Some ''jwt''))))
     = [Fetch ''https://api.limen.trade/api/history?limit=20&page=2''
          \<lparr>req_method = Some ''POST'',
           req_headers = Some [(''Authorization'', ''Bearer jwt'')],
           req_body = None\<rparr>]"
  using getHistory_posts_to_history [of "demo_client (reply 200 (JObj []) ''{}'')"
      "\<lparr>opt_page = Some 2, opt_limit = Some (LimitNumber 20), opt_all = None\<rparr>"
      "state0 (Some ''jwt'')"]
  by (simp add: state0_def demo_client_def history_path_def history_params_def
      params_toString_def urlencode_def urlencode_char_def String_of_int_def digits10.simps)

subsection \<open>The history query\<close>

lemma digits10_set: "set (digits10 n) \<subseteq> set ''0123456789''"
proof (induction n rule: digits10.induct)
  case (1 n)
  define ds where "ds = ''0123456789''"
  have len: "length ds = 10" by (simp add: ds_def)
  have d: "ds ! k \<in> set ds" if "k < 10" for k
    using that len by simp
  have eq: "digits10 n = (if n < 10 then [ds ! n] else digits10 (n div 10) @ [ds ! (n mod 10)])"
    unfolding ds_def by (rule digits10.simps)
  have IH: "\<not> n < 10 \<Longrightarrow> set (digits10 (n div 10)) \<subseteq> set ds"
    unfolding ds_def using "1.IH" by blast
  have m: "n mod 10 < 10" by simp
  have "set (digits10 n) \<subseteq> set ds"
  proof (cases "n < 10")
    case True
    then show ?thesis using d [of n] by (simp add: eq)
  next
    case False
    then show ?thesis using IH d [OF m] by (simp add: eq)
  qed
  then show ?case by (simp only: ds_def)
qed

lemma String_of_int_set: "set (String_of_int i) \<subseteq> set ''-0123456789''"
proof -
  have "set (digits10 k) \<subseteq> set ''-0123456789''" for k
    using digits10_set [of k] by (rule subset_trans) simp
  then show ?thesis
    by (simp add: String_of_int_def)
qed

lemma urlencode_char_safe: "\<forall>c \<in> set ''-0123456789''. urlencode_char c = [c]"
  by (simp add: urlencode_char_def)

lemma urlencode_safe:
  "(\<forall>c \<in> set s. urlencode_char c = [c]) \<Longrightarrow> urlencode s = s"
  by (induction s) (simp_all add: urlencode_def)

lemma urlencode_String_of_int: "urlencode (String_of_int i) = String_of_int i"
proof (rule urlencode_safe)
  show "\<forall>c \<in> set (String_of_int i). urlencode_char c = [c]"
    using String_of_int_set [of i] urlencode_char_safe by blast
qed

lemma history_query_all:
  assumes "opt_all options = Some True"
  shows "params_toString (history_params options) =
           ''all=true'' @ (case opt_page options of
                             None \<Rightarrow> []
                           | Some p \<Rightarrow> if p \<noteq> 0 then ''&page='' @ String_of_int p else [])"
proof -
  have a: "urlencode ''all'' = ''all''" "urlencode ''true'' = ''true''" "urlencode ''page'' = ''page''"
    by (simp_all add: urlencode_def urlencode_char_def)
  show ?thesis
    using assms
    by (simp add: history_params_def params_toString_def urlencode_String_of_int a
        split: option.splits)
qed

lemma no_i_in_String_of_int: "CHR ''i'' \<notin> set (String_of_int p)"
proof
  assume "CHR ''i'' \<in> set (String_of_int p)"
  then have "CHR ''i'' \<in> set ''-0123456789''"
    using String_of_int_set [of p] by (rule rev_subsetD)
  then show False by simp
qed

text \<open>
  C5. When \<open>options.all\<close> is true, the parameters of the query hold \<open>all=true\<close> and no
  \<open>limit\<close>, whatever \<open>options.limit\<close> is: the query string starts with \<open>all=true\<close>, the
  text \<open>limit\<close> does not occur in it, and it is the query of every request the call sends.
\<close>

theorem all_suppresses_limit:
  assumes "opt_all options = Some True"
  shows "(''all'', ''true'') \<in> set (history_params options)
       \<and> ''limit'' \<notin> fst ` set (history_params options)
       \<and> prefix ''all=true'' (params_toString (history_params options))
       \<and> \<not> sublist ''limit'' (params_toString (history_params options))
       \<and> history_path options = ''/api/history?'' @ params_toString (history_params options)
       \<and> (\<forall>e \<in> set (drop (length (calls s)) (calls (snd (getHistory c options s)))).
            \<exists>init. e = Fetch (baseUrl c @ ''/api/history?''
                                   @ params_toString (history_params options)) init)"
proof -
  let ?q = "params_toString (history_params options)"
  have q: "prefix ''all=true'' ?q" "?q \<noteq> []"
    by (simp_all add: history_query_all [OF assms])
  have a: "(''all'', ''true'') \<in> set (history_params options)"
    using assms by (simp add: history_params_def Let_def split: option.splits)
  have b: "''limit'' \<notin> fst ` set (history_params options)"
    using assms by (simp add: history_params_def Let_def split: option.splits)
  have "CHR ''i'' \<notin> set ?q"
    by (simp add: history_query_all [OF assms] no_i_in_String_of_int split: option.splits)
  then have c: "\<not> sublist ''limit'' ?q"
    using set_mono_sublist [of "''limit''" ?q] by auto
  have d: "history_path options = ''/api/history?'' @ ?q"
    using q(2) by (simp add: history_path_def Let_def)
  have e: "\<forall>e \<in> set (drop (length (calls s)) (calls (snd (getHistory c options s)))).
            \<exists>init. e = Fetch (baseUrl c @ ''/api/history?'' @ ?q) init"
    by (auto simp: getHistory_calls d split: option.splits if_splits)
  from a b c d e q(1) show ?thesis by blast
qed

theorem all_suppresses_limit_witness:
  "opt_all \<lparr>opt_page = Some 3, opt_limit = Some (LimitNumber 20), opt_all = Some True\<rparr> = Some True
   \<and> history_params \<lparr>opt_page = Some 3, opt_limit = Some (LimitNumber 20), opt_all = Some True\<rparr>
       = [(''all'', ''true''), (''page'', ''3'')]
   \<and> params_toString (history_params
        \<lparr>opt_page = Some 3, opt_limit = Some (LimitNumber 20), opt_all = Some True\<rparr>)
       = ''all=true&page=3''
   \<and> calls (snd (getHistory (demo_client (reply 200 (JObj []) ''{}''))
        \<lparr>opt_page = Some 3, opt_limit = Some (LimitNumber 20), opt_all = Some True\<rparr>
        (state0 (Some ''jwt''))))
       = [Fetch ''https://api.limen.trade/api/history?all=true&page=3''
            \<lparr>req_method = Some ''POST'',
             req_headers = Some [(''Authorization'', ''Bearer jwt'')],
             req_body = None\<rparr>]"
  using all_suppresses_limit
      [of "\<lparr>opt_page = Some 3, opt_limit = Some (LimitNumber 20), opt_all = Some True\<rparr>"
          "state0 (Some ''jwt'')" "demo_client (reply 200 (JObj []) ''{}'')"]
  by (simp add: history_params_def history_path_def params_toString_def urlencode_def
      urlencode_char_def String_of_int_def digits10.simps getHistory_calls state0_def
      demo_client_def)

subsection \<open>The history result\<close>

lemma getHistory_result_shape:
  assumes "getHistory c options s = (Inr r, s')"
  shows "isArray (history r) \<and> history r \<noteq> JUndefined \<and> pagination r \<noteq> JUndefined"
proof -
  from assms obtain h p where r: "r = \<lparr>history = (if isArray h then h else JArr []),
      pagination = nullish_or p JNull\<rparr>"
    by (auto simp: getHistory_def await_def settled_def resolve_def
        split: prod.splits sum.splits)
  show ?thesis
    by (auto simp: r isArray_def nullish_or_def)
qed

lemma authorizedFetch_ok:
  assumes "tokenStore s = Some t" "t \<noteq> []"
    and "fetchFn c (baseUrl c @ path)
           \<lparr>req_method = Some (case init_method init of None \<Rightarrow> ''POST'' | Some m \<Rightarrow> m),
            req_headers = Some ([(''Authorization'', ''Bearer '' @ t)]
               @ (case init_body init of None \<Rightarrow> []
                  | Some b \<Rightarrow> if b = [] then [] else [(''Content-Type'', ''application/json'')])),
            req_body = init_body init\<rparr> (world s) = (Inr res, w')"
    and "status res < 400"
  shows "fst (authorizedFetch c path init s) = Inr res"
  using assms
  by (simp add: authorizedFetch_def requireToken_present call_fetch_def await_def resolve_def
      Let_def)

lemma getHistory_empty_body:
  assumes "tokenStore s = Some t" "t \<noteq> []"
    and "fetchFn c (baseUrl c @ history_path options)
           \<lparr>req_method = Some ''POST'',
            req_headers = Some [(''Authorization'', ''Bearer '' @ t)],
            req_body = None\<rparr> (world s) = (Inr res, w')"
    and "status res < 400"
    and "res_json res = Inr (JObj kvs)"
    and "\<forall>v. map_of kvs ''history'' = Some v \<longrightarrow> \<not> isArray v"
    and "map_of kvs ''pagination'' = None"
  shows "fst (getHistory c options s) = Inr \<lparr>history = JArr [], pagination = JNull\<rparr>"
proof -
  have "fst (authorizedFetch c (history_path options) \<lparr>init_method = None, init_body = None\<rparr> s)
          = Inr res"
    using authorizedFetch_ok [of s t c "history_path options"
        "\<lparr>init_method = None, init_body = None\<rparr>" res w'] assms(1-4)
    by simp
  moreover have "parseJson res = Inr (JObj kvs)"
    using assms(5) by (simp add: parseJson_def)
  moreover have "get_prop (JObj kvs) ''pagination'' = Inr JUndefined"
    using assms(7) by (simp add: get_prop_def)
  moreover have "\<exists>h. get_prop (JObj kvs) ''history'' = Inr h \<and> \<not> isArray h"
    using assms(6) by (cases "map_of kvs ''history''") (simp_all add: get_prop_def isArray_def)
  ultimately show ?thesis
    by (auto simp: getHistory_def await_def settled_def resolve_def nullish_or_def
        split: prod.splits sum.splits)
qed

text \<open>
  C6. A successful \<open>getHistory\<close> always returns an array as \<open>history\<close> and a
  \<open>pagination\<close> that is not \<open>undefined\<close>. When the response (status below 400) decodes to
  a JSON object whose \<open>history\<close> field is missing or not an array and which has no
  \<open>pagination\<close> field, the result is exactly \<open>{history: [], pagination: null}\<close>.
\<close>

theorem history_defaults:
  "(getHistory c options s = (Inr r, s')
      \<longrightarrow> isArray (history r) \<and> history r \<noteq> JUndefined \<and> pagination r \<noteq> JUndefined)
   \<and> (tokenStore s = Some t \<and> t \<noteq> []
       \<and> fetchFn c (baseUrl c @ history_path options)
            \<lparr>req_method = Some ''POST'',
             req_headers = Some [(''Authorization'', ''Bearer '' @ t)],
             req_body = None\<rparr> (world s) = (Inr res, w')
       \<and> status res < 400
       \<and> res_json res = Inr (JObj kvs)
       \<and> (\<forall>v. map_of kvs ''history'' = Some v \<longrightarrow> \<not> isArray v)
       \<and> map_of kvs ''pagination'' = None
      \<longrightarrow> fst (getHistory c options s) = Inr \<lparr>history = JArr [], pagination = JNull\<rparr>)"
  using getHistory_result_shape [of c options s r s']
    getHistory_empty_body [of s t c options res w' kvs]
  by blast

theorem history_defaults_witness:
  "getHistory (demo_client (reply 200 (JObj [(''history'', JStr ''none'')]) []))
     no_options (state0 (Some ''jwt''))
     = (Inr \<lparr>history = JArr [], pagination = JNull\<rparr>,
        \<lparr>tokenStore = Some ''jwt'', world = 1,
         calls = [Fetch ''https://api.limen.trade/api/history''
                    \<lparr>req_method = Some ''POST'',
                     req_headers = Some [(''Authorization'', ''Bearer jwt'')],
                     req_body = None\<rparr>]\<rparr>)
   \<and> isArray (history \<lparr>history = JArr [], pagination = JNull\<rparr>)
   \<and> pagination \<lparr>history = JArr [], pagination = JNull\<rparr> \<noteq> JUndefined
   \<and> map_of [(''history'', JStr ''none'')] ''pagination'' = None
   \<and> \<not> isArray (JStr ''none'')
   \<and> getHistory (demo_client (reply 200 (JObj []) ''{}'')) no_options (state0 (Some ''jwt''))
     = (Inr \<lparr>history = JArr [], pagination = JNull\<rparr>,
        \<lparr>tokenStore = Some ''jwt'', world = 1,
         calls = [Fetch ''https://api.limen.trade/api/history''
                    \<lparr>req_method = Some ''POST'',
                     req_headers = Some [(''Authorization'', ''Bearer jwt'')],
                     req_body = None\<rparr>]\<rparr>)"
  using history_defaults [of "demo_client (reply 200 (JObj [(''history'', JStr ''none'')]) [])"
      no_options "state0 (Some ''jwt'')" "\<lparr>history = JArr [], pagination = JNull\<rparr>"
      "\<lparr>tokenStore = Some ''jwt'', world = 1,
         calls = [Fetch ''https://api.limen.trade/api/history''
                    \<lparr>req_method = Some ''POST'',
                     req_headers = Some [(''Authorization'', ''Bearer jwt'')],
                     req_body = None\<rparr>]\<rparr>"
      "''jwt''"
      "\<lparr>status = 200, res_json = Inr (JObj [(''history'', JStr ''none'')]), res_text = Inr []\<rparr>"
      1 "[(''history'', JStr ''none'')]"]
  by (simp add: state0_def demo_client_def reply_def no_options_def history_path_def
      history_params_def params_toString_def getHistory_def authorizedFetch_def
      requireToken_def getToken_def store_getToken_def parseJson_def get_prop_def isArray_def
      nullish_or_def call_fetch_def await_def throw_def resolve_def settled_def Let_def)

subsection \<open>The empty token\<close>

text \<open>
  The public \<open>getToken\<close> tells the empty string from an absent token, also after an
  authorized call has failed on it: the call leaves the store as it was.
\<close>

theorem empty_token_counterexample:
  "fst (getToken (state0 (Some []))) = Inr (Some [])
   \<and> fst (getToken (state0 None)) = Inr None
   \<and> fst (getToken (snd (getHistory (demo_client (reply 200 (JObj []) ''{}'')) no_options
                              (state0 (Some []))))) = Inr (Some [])
   \<and> fst (getToken (snd (getHistory (demo_client (reply 200 (JObj []) ''{}'')) no_options
                              (state0 None)))) = Inr None
   \<and> (Inr (Some []) :: thrown + string option) \<noteq> Inr None"
  by (simp add: getToken_def store_getToken_def getHistory_unauth requireToken_empty
      requireToken_absent state0_def)

text \<open>
  C9 (as the code has it). When the token store holds the empty string, \<open>getHistory\<close>
  and \<open>requestSignal\<close> (with a payment client configured) fail with the unauthenticated
  error and record no call to a transport; the error and the recorded calls are those of
  the same call made with an absent token. The call leaves the store as it was, so
  \<open>getToken\<close> still yields the empty string and not an absent token.
\<close>

theorem empty_token_is_absent:
  assumes "tokenStore s = Some []"
  shows "getHistory c options s = (Inl unauthenticated, s)
       \<and> (paymentClient c = Some pay \<longrightarrow> requestSignal c sopts s = (Inl unauthenticated, s))
       \<and> calls (snd (getHistory c options s)) = calls s
       \<and> calls (snd (requestSignal c sopts s)) = calls s
       \<and> fst (getHistory c options s) = fst (getHistory c options (s\<lparr>tokenStore := None\<rparr>))
       \<and> fst (requestSignal c sopts s) = fst (requestSignal c sopts (s\<lparr>tokenStore := None\<rparr>))
       \<and> calls (snd (getHistory c options s))
           = calls (snd (getHistory c options (s\<lparr>tokenStore := None\<rparr>)))
       \<and> calls (snd (requestSignal c sopts s))
           = calls (snd (requestSignal c sopts (s\<lparr>tokenStore := None\<rparr>)))
       \<and> fst (getToken s) = Inr (Some [])
       \<and> fst (getToken (snd (getHistory c options s))) = Inr (Some [])
       \<and> (paymentClient c = Some pay
            \<longrightarrow> fst (getToken (snd (requestSignal c sopts s))) = Inr (Some []))"
proof -
  have e: "requireToken s = (Inl unauthenticated, s)"
    by (rule requireToken_empty [OF assms])
  have n: "requireToken (s\<lparr>tokenStore := None\<rparr>) = (Inl unauthenticated, s\<lparr>tokenStore := None\<rparr>)"
    by (rule requireToken_absent) simp
  have h: "getHistory c options s = (Inl unauthenticated, s)"
    "getHistory c options (s\<lparr>tokenStore := None\<rparr>) = (Inl unauthenticated, s\<lparr>tokenStore := None\<rparr>)"
    using e n by (simp_all add: getHistory_unauth)
  have r: "fst (requestSignal c sopts s) = fst (requestSignal c sopts (s\<lparr>tokenStore := None\<rparr>))"
    using e n by (cases "paymentClient c") (simp_all add: requestSignal_unauth, simp_all add: requestSignal_def throw_def)
  have rc: "calls (snd (requestSignal c sopts s)) = calls s"
    "calls (snd (requestSignal c sopts (s\<lparr>tokenStore := None\<rparr>))) = calls s"
    using assms by (simp_all add: requestSignal_calls split: option.splits)
  have g: "fst (getToken s) = Inr (Some [])"
    using assms by (simp add: getToken_def store_getToken_def)
  show ?thesis
    using h r rc e g by (simp add: requestSignal_unauth)
qed

theorem empty_token_is_absent_witness:
  "tokenStore (state0 (Some [])) = Some []
   \<and> getHistory (demo_client (reply 200 (JObj []) ''{}'')) no_options (state0 (Some []))
       = (Inl unauthenticated, state0 (Some []))
   \<and> paymentClient (demo_client (reply 200 (JObj []) ''{}'')) = Some (reply 200 (JObj []) ''{}'')
   \<and> requestSignal (demo_client (reply 200 (JObj []) ''{}'')) sol_signal (state0 (Some []))
       = (Inl unauthenticated, state0 (Some []))
   \<and> calls (state0 (Some [])) = []
   \<and> fst (getToken (snd (requestSignal (demo_client (reply 200 (JObj []) ''{}'')) sol_signal
                              (state0 (Some []))))) = Inr (Some [])"
  using empty_token_is_absent [of "state0 (Some [])" "demo_client (reply 200 (JObj []) ''{}'')"
      no_options "reply 200 (JObj []) ''{}''" sol_signal]
  by (simp add: state0_def demo_client_def)

subsection \<open>The default timeframe\<close>

lemma json_quote_timeframe: \<open>json_quote ''timeframe'' = ''"timeframe"''\<close>
  by (simp add: json_quote_def json_escape_char_def)

lemma json_quote_1d: \<open>json_quote ''1d'' = ''"1d"''\<close>
  by (simp add: json_quote_def json_escape_char_def)

lemma signal_body_default:
  assumes "timeframe sopts = None"
  shows "signal_body sopts =
           JSON_stringify [(''ticker'', JStr (ticker sopts)),
                           (''timeframe'', JStr ''1d''),
                           (''metadata'', undefined_or (metadata sopts))]"
  using assms by (simp add: signal_body_def)

lemma signal_body_timeframe:
  assumes "timeframe sopts = None"
  shows \<open>sublist ''"timeframe":"1d"'' (signal_body sopts)\<close>
proof -
  define tk where "tk = json_quote ''ticker'' @ '':'' @ json_quote (ticker sopts)"
  define tf :: string where \<open>tf = ''"timeframe":"1d"''\<close>
  have tf: "json_quote ''timeframe'' @ '':'' @ stringify (JStr ''1d'') = tf"
    by (simp add: json_quote_timeframe json_quote_1d tf_def)
  show ?thesis
  proof (cases "undefined_or (metadata sopts) = JUndefined")
    case True
    then have "signal_body sopts = (''{'' @ tk @ '','') @ tf @ ''}''"
      using assms tf by (simp add: signal_body_def JSON_stringify_def tk_def)
    then show ?thesis
      unfolding tf_def by (metis sublist_appendI)
  next
    case False
    then have "signal_body sopts = (''{'' @ tk @ '','') @ tf
        @ ('','' @ json_quote ''metadata'' @ '':'' @ stringify (undefined_or (metadata sopts)) @ ''}'')"
      using assms tf by (simp add: signal_body_def JSON_stringify_def tk_def)
    then show ?thesis
      unfolding tf_def by (metis sublist_appendI)
  qed
qed

text \<open>
  C10. When the options of \<open>requestSignal\<close> omit \<open>timeframe\<close>, the body of the request
  is the JSON text of an object whose \<open>timeframe\<close> field is the string \<open>1d\<close>; every
  request the call sends goes to \<open>/api/analyze/signal\<close> with that body, and with a payment
  client and a non-empty token exactly one request is sent.
\<close>

theorem default_timeframe:
  assumes "timeframe sopts = None"
  shows \<open>signal_body sopts =
           JSON_stringify [(''ticker'', JStr (ticker sopts)),
                           (''timeframe'', JStr ''1d''),
                           (''metadata'', undefined_or (metadata sopts))]
       \<and> sublist ''"timeframe":"1d"'' (signal_body sopts)
       \<and> (\<forall>e \<in> set (drop (length (calls s)) (calls (snd (requestSignal c sopts s)))).
            \<exists>hs. e = PaymentFetch (baseUrl c @ ''/api/analyze/signal'')
                       \<lparr>req_method = Some ''POST'', req_headers = Some hs,
                        req_body = Some (signal_body sopts)\<rparr>)
       \<and> (paymentClient c = Some pay \<and> tokenStore s = Some t \<and> t \<noteq> []
            \<longrightarrow> calls (snd (requestSignal c sopts s)) =
                  calls s @ [PaymentFetch (baseUrl c @ ''/api/analyze/signal'')
                     \<lparr>req_method = Some ''POST'',
                      req_headers = Some [(''Content-Type'', ''application/json''),
                                          (''Authorization'', ''Bearer '' @ t)],
                      req_body = Some (signal_body sopts)\<rparr>])\<close>
proof -
  have a: "\<forall>e \<in> set (drop (length (calls s)) (calls (snd (requestSignal c sopts s)))).
            \<exists>hs. e = PaymentFetch (baseUrl c @ ''/api/analyze/signal'')
                       \<lparr>req_method = Some ''POST'', req_headers = Some hs,
                        req_body = Some (signal_body sopts)\<rparr>"
    by (auto simp: requestSignal_calls split: option.splits if_splits)
  have b: "paymentClient c = Some pay \<and> tokenStore s = Some t \<and> t \<noteq> []
            \<longrightarrow> calls (snd (requestSignal c sopts s)) =
                  calls s @ [PaymentFetch (baseUrl c @ ''/api/analyze/signal'')
                     \<lparr>req_method = Some ''POST'',
                      req_headers = Some [(''Content-Type'', ''application/json''),
                                          (''Authorization'', ''Bearer '' @ t)],
                      req_body = Some (signal_body sopts)\<rparr>]"
    by (simp add: requestSignal_calls)
  from signal_body_default [OF assms] signal_body_timeframe [OF assms] a b
  show ?thesis by blast
qed

theorem default_timeframe_witness:
  \<open>timeframe sol_signal = None
   \<and> calls (snd (requestSignal (demo_client (reply 200 (JObj []) ''{}'')) sol_signal
                   (state0 (Some ''jwt''))))
     = [PaymentFetch ''https://api.limen.trade/api/analyze/signal''
          \<lparr>req_method = Some ''POST'',
           req_headers = Some [(''Content-Type'', ''application/json''),
                               (''Authorization'', ''Bearer jwt'')],
           req_body = Some ''{"ticker":"SOL","timeframe":"1d"}''\<rparr>]\<close>
  using default_timeframe [of sol_signal "state0 (Some ''jwt'')"
      "demo_client (reply 200 (JObj []) ''{}'')" "reply 200 (JObj []) ''{}''" "''jwt''"]
  by (simp add: sol_signal_def state0_def demo_client_def JSON_stringify_def json_quote_def
      json_escape_char_def undefined_or_def)

section \<open>Authentication\<close>

subsection \<open>Secret keys of the wrong length\<close>

lemma normalizeSecretKey_bad_length:
  assumes "\<not> isKeypair input" "keyBytes cr input = Inr kb" "length kb \<noteq> 32" "length kb \<noteq> 64"
  shows "normalizeSecretKey cr input = Inl bad_key_length"
  using assms by (cases input) (simp_all add: normalizeSecretKey_def)

text \<open>
  \<open>authenticateWithSecretKey\<close> resolves the transport before it normalizes the key: with
  no transport passed in and none in the host, a three-byte key fails with the
  configuration error.
\<close>

theorem bad_key_length_counterexample:
  "authenticateWithSecretKey None toy_crypto ''https://api.limen.trade'' (KeyBytes [1, 2, 3]) None
     (state0 None)
     = (Inl (ErrorObj
          ''No fetch implementation available. Provide a custom fetch via the SDK constructor.''),
        state0 None)
   \<and> keyBytes toy_crypto (KeyBytes [1, 2, 3]) = Inr [1, 2, 3]
   \<and> length [1, 2, 3 :: 8 word] \<noteq> 32 \<and> length [1, 2, 3 :: 8 word] \<noteq> 64
   \<and> ErrorObj ''No fetch implementation available. Provide a custom fetch via the SDK constructor.''
       \<noteq> bad_key_length"
  by (simp add: authenticateWithSecretKey_def assertFetch_def await_def settled_def
      bad_key_length_def)

text \<open>
  C4 (as the code has it). Let the secret-key input be a string, a byte array or an array
  of numbers (a \<open>Keypair\<close> always carries 64 bytes) whose bytes number neither 32 nor 64.
  Then normalization fails with the length-mismatch error; \<open>authenticateWithSecretKey\<close>
  fails and records no call to the transport. When a transport is available, passed in
  or global, its error is the length-mismatch error; when none is, its error is the
  configuration error that \<open>assertFetch\<close> raises before the key is normalized.
\<close>

theorem bad_key_length_no_network:
  assumes "\<not> isKeypair input" and "keyBytes cr input = Inr kb"
    and "length kb \<noteq> 32" and "length kb \<noteq> 64"
  shows "normalizeSecretKey cr input = Inl bad_key_length
       \<and> (assertFetch defaultFetchFn fetchArg = Inr f
            \<longrightarrow> authenticateWithSecretKey defaultFetchFn cr base input fetchArg s
                  = (Inl bad_key_length, s))
       \<and> (\<exists>e. authenticateWithSecretKey defaultFetchFn cr base input fetchArg s = (Inl e, s))
       \<and> calls (snd (authenticateWithSecretKey defaultFetchFn cr base input fetchArg s)) = calls s
       \<and> (fetchArg = None \<and> defaultFetchFn = None
            \<longrightarrow> authenticateWithSecretKey defaultFetchFn cr base input fetchArg s
                  = (Inl (ErrorObj
                       ''No fetch implementation available. Provide a custom fetch via the SDK constructor.''),
                     s))
       \<and> (assertFetch defaultFetchFn fetchArg = Inl e0
            \<longrightarrow> authenticateWithSecretKey defaultFetchFn cr base input fetchArg s = (Inl e0, s))"
proof -
  have n: "normalizeSecretKey cr input = Inl bad_key_length"
    by (rule normalizeSecretKey_bad_length [OF assms])
  show ?thesis
  proof (cases "assertFetch defaultFetchFn fetchArg")
    case (Inl e)
    then show ?thesis
      using n
      by (auto simp: authenticateWithSecretKey_def await_def settled_def assertFetch_def
          split: option.splits)
  next
    case (Inr g)
    then show ?thesis
      using n
      by (auto simp: authenticateWithSecretKey_def await_def settled_def assertFetch_def
          split: option.splits)
  qed
qed

theorem bad_key_length_no_network_witness:
  "\<not> isKeypair (KeyNumbers [1, 2, 300])
   \<and> keyBytes toy_crypto (KeyNumbers [1, 2, 300]) = Inr [1, 2, 44]
   \<and> length [1, 2, 44 :: 8 word] \<noteq> 32 \<and> length [1, 2, 44 :: 8 word] \<noteq> 64
   \<and> assertFetch None (Some (reply 200 (JObj []) ''{}'')) = Inr (reply 200 (JObj []) ''{}'')
   \<and> authenticateWithSecretKey None toy_crypto ''https://api.limen.trade''
        (KeyNumbers [1, 2, 300]) (Some (reply 200 (JObj []) ''{}'')) (state0 None)
       = (Inl bad_key_length, state0 None)
   \<and> authenticateWithSecretKey None toy_crypto ''https://api.limen.trade''
        (KeyNumbers [1, 2, 300]) None (state0 None)
       = (Inl (ErrorObj
            ''No fetch implementation available. Provide a custom fetch via the SDK constructor.''),
          state0 None)"
  using bad_key_length_no_network [of "KeyNumbers [1, 2, 300]" toy_crypto "[1, 2, 44]"
      None "Some (reply 200 (JObj []) ''{}'')" "reply 200 (JObj []) ''{}''"
      "''https://api.limen.trade''" "state0 None"]
    bad_key_length_no_network [of "KeyNumbers [1, 2, 300]" toy_crypto "[1, 2, 44]"
      None None _ "''https://api.limen.trade''" "state0 None"]
  by (simp add: assertFetch_def)

subsection \<open>The message of a failed exchange\<close>

lemma exchange_json_failure:
  assumes "f (base @ ''/api/auth'') (exchange_init wallet signature ct) (world s) = (Inr res, w')"
    and "res_json res = Inr body"
    and "get_prop body ''token'' = Inr tok" and "get_prop body ''error'' = Inr err"
    and "400 \<le> status res \<or> \<not> truthy tok"
  shows "fst (exchangeSignatureForToken base wallet signature ct f s) =
           (if truthy err
            then (case ToString err of Inl t \<Rightarrow> Inl t | Inr m \<Rightarrow> Inl (ErrorObj m))
            else Inl (ErrorObj (''Auth failed ('' @ String_of_int (status res) @ '')'')))"
  using assms
  by (auto simp: exchangeSignatureForToken_def call_fetch_def parseJson_def auth_failure_def
      await_def settled_def throw_def split: sum.splits)

lemma exchange_error_string:
  assumes "f (base @ ''/api/auth'') (exchange_init wallet signature ct) (world s) = (Inr res, w')"
    and "res_json res = Inr body"
    and "get_prop body ''token'' = Inr tok" and "get_prop body ''error'' = Inr (JStr m)"
    and "m \<noteq> []"
    and "400 \<le> status res \<or> \<not> truthy tok"
  shows "fst (exchangeSignatureForToken base wallet signature ct f s) = Inl (ErrorObj m)"
  using exchange_json_failure [of f base wallet signature ct s res w' body tok "JStr m"] assms
  by simp

lemma exchange_not_json:
  assumes "f (base @ ''/api/auth'') (exchange_init wallet signature ct) (world s) = (Inr res, w')"
    and "res_json res = Inl e" and "res_text res = Inr txt"
  shows "fst (exchangeSignatureForToken base wallet signature ct f s) =
           Inl (ErrorObj (''Failed to parse JSON response: '' @ txt))"
  using assms
  by (simp add: exchangeSignatureForToken_def call_fetch_def parseJson_def
      await_def settled_def)

lemma exchange_not_json_unreadable:
  assumes "f (base @ ''/api/auth'') (exchange_init wallet signature ct) (world s) = (Inr res, w')"
    and "res_json res = Inl e" and "res_text res = Inl e'"
  shows "fst (exchangeSignatureForToken base wallet signature ct f s) = Inl e'"
  using assms
  by (simp add: exchangeSignatureForToken_def call_fetch_def parseJson_def
      await_def settled_def)

lemma wallet_path_exchange:
  assumes "assertFetch defaultFetchFn fetchArg = Inr f"
    and "fetchChallenge base f s0 = (Inr ch, s1)"
    and "get_prop ch ''challenge'' = Inr chal" and "get_prop ch ''challengeToken'' = Inr ct"
    and "TextEncoder_encode chal = Inr msg"
    and "call_signMessage w msg s1 = (Inr sig, s)"
  shows "fst (authenticateWithWallet defaultFetchFn cr base w fetchArg s0) =
           (case fst (exchangeSignatureForToken base (address w) (bs58_encode cr sig) ct f s) of
              Inl e \<Rightarrow> Inl e
            | Inr tok \<Rightarrow> Inr \<lparr>auth_token = tok, auth_wallet = address w\<rparr>)"
  using assms
  by (simp add: authenticateWithWallet_def await_def settled_def resolve_def Let_def
      split: prod.splits sum.splits)

lemma secret_path_exchange:
  assumes "assertFetch defaultFetchFn fetchArg = Inr f"
    and "normalizeSecretKey cr input = Inr nk"
    and "fetchChallenge base f s0 = (Inr ch, s)"
    and "get_prop ch ''challenge'' = Inr chal" and "get_prop ch ''challengeToken'' = Inr ct"
    and "TextEncoder_encode chal = Inr msg"
    and "sign_detached cr msg (nk_secretKey nk) = Inr sig"
  shows "fst (authenticateWithSecretKey defaultFetchFn cr base input fetchArg s0) =
           (case fst (exchangeSignatureForToken base (nk_wallet nk) (bs58_encode cr sig) ct f s) of
              Inl e \<Rightarrow> Inl e
            | Inr tok \<Rightarrow> Inr \<lparr>auth_token = tok, auth_wallet = nk_wallet nk\<rparr>)"
  using assms
  by (simp add: authenticateWithSecretKey_def await_def settled_def resolve_def Let_def
      split: prod.splits sum.splits)

text \<open>
  When the body of the exchange response is not valid JSON, \<open>fetchJson\<close> raises its own
  error before the status is looked at: with the body text when \<open>text()\<close> can still be
  read, and the rejection of \<open>text()\<close> when the body was consumed by \<open>json()\<close>.
\<close>

theorem exchange_not_json_counterexample:
  "fst (authenticateWithWallet None toy_crypto ''https://api.limen.trade'' echo_wallet
          (Some (auth_server 502 (Inl (ErrorObj ''Unexpected token <''))
                   (Inr ''<html>Bad Gateway</html>'')))
          (state0 None))
     = Inl (ErrorObj ''Failed to parse JSON response: <html>Bad Gateway</html>'')
   \<and> ErrorObj ''Failed to parse JSON response: <html>Bad Gateway</html>''
       \<noteq> ErrorObj (''Auth failed ('' @ String_of_int 502 @ '')'')
   \<and> String_of_int 502 = ''502''
   \<and> fst (authenticateWithWallet None toy_crypto ''https://api.limen.trade'' echo_wallet
          (Some (auth_server 502 (Inl (ErrorObj ''Unexpected token <'')) (Inl body_used)))
          (state0 None))
     = Inl body_used
   \<and> body_used \<noteq> ErrorObj (''Auth failed ('' @ String_of_int 502 @ '')'')"
  by (simp add: authenticateWithWallet_def assertFetch_def fetchChallenge_def
      exchangeSignatureForToken_def call_fetch_def call_signMessage_def parseJson_def
      get_prop_def auth_server_def echo_wallet_def toy_crypto_def state0_def body_used_def
      TextEncoder_encode_def String_of_int_def digits10.simps
      await_def settled_def resolve_def throw_def Let_def)

text \<open>
  C7 (as the code has it). The exchange request is answered with a response. If its body
  decodes to a value whose \<open>token\<close> and \<open>error\<close> can be read (any value but \<open>null\<close>), and
  the status is at least 400 or the token is missing or falsy, the exchange fails: with
  \<open>Auth failed (<status>)\<close> as message when the \<open>error\<close> field is missing or falsy, and
  otherwise with the \<open>error\<close> field converted to a string as message (for a non-empty
  string the field itself), or with the TypeError of that conversion when the field has no
  string form. If the body is not valid JSON, the exchange fails with
  \<open>Failed to parse JSON response: <body text>\<close> when the body text can still be read, and
  with the rejection of \<open>text()\<close> when it cannot. On the wallet path and on the secret-key
  path alike, the error of the exchange is the error of the authentication.
\<close>

theorem exchange_failure_message:
  "(f (base @ ''/api/auth'') (exchange_init wallet signature ct) (world s) = (Inr res, w')
      \<and> res_json res = Inr body
      \<and> get_prop body ''token'' = Inr tok \<and> get_prop body ''error'' = Inr err
      \<and> (400 \<le> status res \<or> \<not> truthy tok)
     \<longrightarrow> fst (exchangeSignatureForToken base wallet signature ct f s) =
           (if truthy err
            then (case ToString err of Inl t \<Rightarrow> Inl t | Inr m \<Rightarrow> Inl (ErrorObj m))
            else Inl (ErrorObj (''Auth failed ('' @ String_of_int (status res) @ '')''))))
   \<and> (f (base @ ''/api/auth'') (exchange_init wallet signature ct) (world s) = (Inr res, w')
      \<and> res_json res = Inr body
      \<and> get_prop body ''token'' = Inr tok \<and> get_prop body ''error'' = Inr (JStr msg)
      \<and> msg \<noteq> []
      \<and> (400 \<le> status res \<or> \<not> truthy tok)
     \<longrightarrow> fst (exchangeSignatureForToken base wallet signature ct f s) = Inl (ErrorObj msg))
   \<and> (f (base @ ''/api/auth'') (exchange_init wallet signature ct) (world s) = (Inr res, w')
      \<and> res_json res = Inl e \<and> res_text res = Inr txt
     \<longrightarrow> fst (exchangeSignatureForToken base wallet signature ct f s) =
           Inl (ErrorObj (''Failed to parse JSON response: '' @ txt)))
   \<and> (f (base @ ''/api/auth'') (exchange_init wallet signature ct) (world s) = (Inr res, w')
      \<and> res_json res = Inl e \<and> res_text res = Inl e'
     \<longrightarrow> fst (exchangeSignatureForToken base wallet signature ct f s) = Inl e')
   \<and> (assertFetch defaultFetchFn fetchArg = Inr f
      \<and> fetchChallenge base f s0 = (Inr ch, s1)
      \<and> get_prop ch ''challenge'' = Inr chal \<and> get_prop ch ''challengeToken'' = Inr ct
      \<and> TextEncoder_encode chal = Inr bs
      \<and> call_signMessage w bs s1 = (Inr sig, s)
      \<and> wallet = address w \<and> signature = bs58_encode cr sig
     \<longrightarrow> fst (authenticateWithWallet defaultFetchFn cr base w fetchArg s0) =
           (case fst (exchangeSignatureForToken base wallet signature ct f s) of
              Inl e \<Rightarrow> Inl e
            | Inr t \<Rightarrow> Inr \<lparr>auth_token = t, auth_wallet = wallet\<rparr>))
   \<and> (assertFetch defaultFetchFn fetchArg = Inr f
      \<and> normalizeSecretKey cr input = Inr nk
      \<and> fetchChallenge base f s0 = (Inr ch, s)
      \<and> get_prop ch ''challenge'' = Inr chal \<and> get_prop ch ''challengeToken'' = Inr ct
      \<and> TextEncoder_encode chal = Inr bs
      \<and> sign_detached cr bs (nk_secretKey nk) = Inr sig
      \<and> wallet = nk_wallet nk \<and> signature = bs58_encode cr sig
     \<longrightarrow> fst (authenticateWithSecretKey defaultFetchFn cr base input fetchArg s0) =
           (case fst (exchangeSignatureForToken base wallet signature ct f s) of
              Inl e \<Rightarrow> Inl e
            | Inr t \<Rightarrow> Inr \<lparr>auth_token = t, auth_wallet = wallet\<rparr>))"
  using exchange_json_failure [of "f" "base" "wallet" "signature" "ct" "s" "res" "w'" "body" "tok" "err"]
    exchange_error_string [of "f" "base" "wallet" "signature" "ct" "s" "res" "w'" "body" "tok" "msg"]
    exchange_not_json [of "f" "base" "wallet" "signature" "ct" "s" "res" "w'" "e" "txt"]
    exchange_not_json_unreadable [of "f" "base" "wallet" "signature" "ct" "s" "res" "w'" "e" "e'"]
    wallet_path_exchange [of "defaultFetchFn" "fetchArg" "f" "base" "s0" "ch" "s1" "chal" "ct" "bs" "w" "sig" "s" "cr"]
    secret_path_exchange [of "defaultFetchFn" "fetchArg" "f" "cr" "input" "nk" "base" "s0" "ch" "s" "chal" "ct" "bs" "sig"]
  by blast

theorem exchange_failure_message_witness:
  "fst (authenticateWithWallet None toy_crypto ''https://api.limen.trade'' echo_wallet
          (Some (auth_server 403 (Inr (JObj [(''error'', JStr ''bad signature'')])) (Inr [])))
          (state0 None))
     = Inl (ErrorObj ''bad signature'')
   \<and> fst (authenticateWithSecretKey None toy_crypto ''https://api.limen.trade''
          (KeyBytes (replicate 32 7))
          (Some (auth_server 200 (Inr (JObj [])) (Inr []))) (state0 None))
     = Inl (ErrorObj ''Auth failed (200)'')
   \<and> fst (authenticateWithSecretKey None toy_crypto ''https://api.limen.trade''
          (KeyBytes (replicate 32 7))
          (Some (auth_server 400 (Inr (JObj [(''error'', JObj [(''toString'', JStr ''x'')])]))
                   (Inr [])))
          (state0 None))
     = Inl cannot_convert
   \<and> fst (authenticateWithSecretKey None toy_crypto ''https://api.limen.trade''
          (KeyBytes (replicate 32 7))
          (Some (auth_server 502 (Inl (ErrorObj ''Unexpected token <'')) (Inl body_used)))
          (state0 None))
     = Inl body_used"
  using exchange_failure_message
    [where f = "auth_server 403 (Inr (JObj [(''error'', JStr ''bad signature'')])) (Inr [])"
       and base = "''https://api.limen.trade''" and wallet = "''Wa11et''"
       and signature = "''zzzzzzz''" and ct = "JStr ''c1''"
       and s = "\<lparr>tokenStore = None, world = 1,
                 calls = [Fetch ''https://api.limen.trade/api/auth/challenge''
                            \<lparr>req_method = Some ''GET'', req_headers = None, req_body = None\<rparr>,
                          SignMessage (map of_char ''sign me'')]\<rparr>"
       and res = "\<lparr>status = 403, res_json = Inr (JObj [(''error'', JStr ''bad signature'')]),
                   res_text = Inr []\<rparr>"
       and w' = 2 and body = "JObj [(''error'', JStr ''bad signature'')]"
       and tok = JUndefined and err = "JStr ''bad signature''" and msg = "''bad signature''"
       and defaultFetchFn = None
       and fetchArg = "Some (auth_server 403 (Inr (JObj [(''error'', JStr ''bad signature'')]))
                               (Inr []))"
       and ?s0.0 = "state0 None"
       and ch = "JObj [(''challenge'', JStr ''sign me''), (''challengeToken'', JStr ''c1'')]"
       and ?s1.0 = "\<lparr>tokenStore = None, world = 1,
                 calls = [Fetch ''https://api.limen.trade/api/auth/challenge''
                            \<lparr>req_method = Some ''GET'', req_headers = None, req_body = None\<rparr>]\<rparr>"
       and chal = "JStr ''sign me''" and bs = "map of_char ''sign me''" and w = echo_wallet
       and sig = "map of_char ''sign me''" and cr = toy_crypto]
  by (simp add: authenticateWithSecretKey_def assertFetch_def fetchChallenge_def
      normalizeSecretKey_def exchange_init_def
      exchangeSignatureForToken_def auth_failure_def call_fetch_def call_signMessage_def
      parseJson_def get_prop_def auth_server_def echo_wallet_def toy_crypto_def state0_def
      TextEncoder_encode_def String_of_int_def digits10.simps
      await_def settled_def resolve_def throw_def Let_def)

section \<open>The bounded retry of the payment adapter\<close>

lemma error_message_missing_account:
  "error_message missing_account = Inr missing_account_message"
  by (simp add: missing_account_def error_message_def)

lemma mintMatch_usdc: "mintMatch missing_account_message = Some usdc_mint"
  by (simp add: missing_account_message_def usdc_mint_def base58_char_def)

lemma on_chain_calls: "pay_calls (snd (on_chain m s)) = pay_calls s"
  by (simp add: on_chain_def split: prod.splits)

lemma ensure_body_calls: "pay_calls (snd (ensure_body env owner mint s)) = pay_calls s"
  by (simp add: ensure_body_def on_chain_def await_def settled_def throw_def resolve_def Let_def
      split: prod.splits sum.splits option.splits)

lemma ensure_calls:
  "pay_calls (snd (ensureAssociatedTokenAccount env owner mint s)) = pay_calls s @ [EnsureAta mint]"
  by (simp add: ensureAssociatedTokenAccount_def ensure_body_calls)

lemma call_baseClient_calls:
  "pay_calls (snd (call_baseClient env input init s)) = pay_calls s @ [BaseFetch input init]"
  by (simp add: call_baseClient_def split: prod.splits)

lemma call_baseClient_throws:
  assumes "baseClient_fetch env input init (chain s) = (Inl err, v1)"
  shows "call_baseClient env input init s =
           (Inl err, s\<lparr>chain := v1, pay_calls := pay_calls s @ [BaseFetch input init]\<rparr>)"
  using assms by (simp add: call_baseClient_def)

lemma keypair_fetch_remediation_fails:
  assumes "baseClient_fetch env input init (chain s) = (Inl err, v1)"
    and "error_message err = Inr message" and "mintMatch message = Some mint"
    and "ensureAssociatedTokenAccount env owner mint
           (s\<lparr>chain := v1, pay_calls := pay_calls s @ [BaseFetch input init]\<rparr>) = (Inl e, s2)"
  shows "keypair_fetch env owner input init s = (Inl e, s2)"
    and "pay_calls s2 = pay_calls s @ [BaseFetch input init, EnsureAta mint]"
proof -
  show "keypair_fetch env owner input init s = (Inl e, s2)"
    using assms by (simp add: keypair_fetch_def call_baseClient_throws await_def)
  have "pay_calls (snd (ensureAssociatedTokenAccount env owner mint
           (s\<lparr>chain := v1, pay_calls := pay_calls s @ [BaseFetch input init]\<rparr>)))
        = pay_calls s @ [BaseFetch input init, EnsureAta mint]"
    by (simp add: ensure_calls)
  then show "pay_calls s2 = pay_calls s @ [BaseFetch input init, EnsureAta mint]"
    by (simp add: assms(4))
qed

lemma keypair_fetch_retry:
  assumes "baseClient_fetch env input init (chain s) = (Inl err, v1)"
    and "error_message err = Inr message" and "mintMatch message = Some mint"
    and "ensureAssociatedTokenAccount env owner mint
           (s\<lparr>chain := v1, pay_calls := pay_calls s @ [BaseFetch input init]\<rparr>) = (Inr u, s2)"
  shows "keypair_fetch env owner input init s = call_baseClient env input init s2"
    and "pay_calls (snd (keypair_fetch env owner input init s))
           = pay_calls s @ [BaseFetch input init, EnsureAta mint, BaseFetch input init]"
proof -
  show k: "keypair_fetch env owner input init s = call_baseClient env input init s2"
    using assms by (simp add: keypair_fetch_def call_baseClient_throws await_def)
  have "pay_calls (snd (ensureAssociatedTokenAccount env owner mint
           (s\<lparr>chain := v1, pay_calls := pay_calls s @ [BaseFetch input init]\<rparr>)))
        = pay_calls s @ [BaseFetch input init, EnsureAta mint]"
    by (simp add: ensure_calls)
  then have "pay_calls s2 = pay_calls s @ [BaseFetch input init, EnsureAta mint]"
    by (simp add: assms(4))
  then show "pay_calls (snd (keypair_fetch env owner input init s))
           = pay_calls s @ [BaseFetch input init, EnsureAta mint, BaseFetch input init]"
    by (simp add: k call_baseClient_calls)
qed

text \<open>Every call: what is recorded, whatever the collaborators answer.\<close>

lemma keypair_fetch_calls:
  "\<exists>evs. pay_calls (snd (keypair_fetch env owner input init s)) = pay_calls s @ evs
         \<and> remediations evs \<le> 1 \<and> base_fetches evs \<le> 2
         \<and> (remediations evs = 0 \<longrightarrow> base_fetches evs = 1)"
proof (cases "baseClient_fetch env input init (chain s)")
  case (Pair r v1)
  show ?thesis
  proof (cases r)
    case (Inr res)
    with Pair have "pay_calls (snd (keypair_fetch env owner input init s))
        = pay_calls s @ [BaseFetch input init]"
      by (simp add: keypair_fetch_def call_baseClient_def)
    then show ?thesis
      by (simp add: remediations_def base_fetches_def)
  next
    case (Inl err)
    with Pair have f: "baseClient_fetch env input init (chain s) = (Inl err, v1)" by simp
    show ?thesis
    proof (cases "error_message err")
      case t: (Inl e)
      with f have "pay_calls (snd (keypair_fetch env owner input init s))
          = pay_calls s @ [BaseFetch input init]"
        by (simp add: keypair_fetch_def call_baseClient_def)
      then show ?thesis
        by (simp add: remediations_def base_fetches_def)
    next
      case m: (Inr message)
      show ?thesis
      proof (cases "mintMatch message")
        case None
        with f m have "pay_calls (snd (keypair_fetch env owner input init s))
            = pay_calls s @ [BaseFetch input init]"
          by (simp add: keypair_fetch_def call_baseClient_def)
        then show ?thesis
          by (simp add: remediations_def base_fetches_def)
      next
        case (Some mint)
        let ?s1 = "s\<lparr>chain := v1, pay_calls := pay_calls s @ [BaseFetch input init]\<rparr>"
        show ?thesis
        proof (cases "ensureAssociatedTokenAccount env owner mint ?s1")
          case p: (Pair r2 s2)
          show ?thesis
          proof (cases r2)
            case (Inl e)
            with p keypair_fetch_remediation_fails [OF f m Some, of owner e s2]
            have "pay_calls (snd (keypair_fetch env owner input init s))
                = pay_calls s @ [BaseFetch input init, EnsureAta mint]"
              by simp
            then show ?thesis
              by (simp add: remediations_def base_fetches_def)
          next
            case (Inr u)
            with p keypair_fetch_retry [OF f m Some, of owner u s2]
            have "pay_calls (snd (keypair_fetch env owner input init s))
                = pay_calls s @ [BaseFetch input init, EnsureAta mint, BaseFetch input init]"
              by simp
            then show ?thesis
              by (simp add: remediations_def base_fetches_def)
          qed
        qed
      qed
    qed
  qed
qed

text \<open>
  When the remediation itself fails (here: the mint's account is unknown to the chain),
  its error is the outcome and the wrapped client is not called a second time.
\<close>

theorem remediation_failure_counterexample:
  "keypair_fetch (broke_env False) ''0wner'' ''https://api.limen.trade/api/analyze/signal''
     signal_init pay0
     = (Inl (ErrorObj
          ''Token mint EPjFWdd5AufqSSqeM2qN1xzybapC8G4wEGGkZwyTDt1v does not exist on solana''),
        \<lparr>chain = 1,
         pay_calls = [BaseFetch ''https://api.limen.trade/api/analyze/signal'' signal_init,
                      EnsureAta ''EPjFWdd5AufqSSqeM2qN1xzybapC8G4wEGGkZwyTDt1v'']\<rparr>)
   \<and> baseClient_fetch (broke_env False) ''https://api.limen.trade/api/analyze/signal''
        signal_init (chain pay0) = (Inl missing_account, 1)
   \<and> error_message missing_account = Inr missing_account_message
   \<and> mintMatch missing_account_message = Some ''EPjFWdd5AufqSSqeM2qN1xzybapC8G4wEGGkZwyTDt1v''
   \<and> base_fetches [BaseFetch ''https://api.limen.trade/api/analyze/signal'' signal_init,
                    EnsureAta ''EPjFWdd5AufqSSqeM2qN1xzybapC8G4wEGGkZwyTDt1v''] = 1"
  using mintMatch_usdc error_message_missing_account
  by (simp add: keypair_fetch_def call_baseClient_def ensureAssociatedTokenAccount_def
      ensure_body_def on_chain_def broke_env_def pay0_def usdc_mint_def NETWORK_def
      base_fetches_def await_def settled_def throw_def resolve_def Let_def)

text \<open>
  C3 (as the code has it). The wrapped payment fetch throws an error whose message matches
  the missing-account pattern for a mint. Then the adapter starts exactly one remediation
  for that mint. If the remediation completes, the wrapped fetch is called once more and
  the outcome of that retry, success or any failure, is the outcome of the call. If the
  remediation fails, its error is the outcome and nothing is retried. Either way the call
  records one remediation and at most two calls to the wrapped fetch.
\<close>

theorem remediate_once_retry_once:
  assumes "baseClient_fetch env input init (chain s) = (Inl err, v1)"
    and "error_message err = Inr message" and "mintMatch message = Some mint"
  shows "(ensureAssociatedTokenAccount env owner mint
            (s\<lparr>chain := v1, pay_calls := pay_calls s @ [BaseFetch input init]\<rparr>) = (Inr u, s2)
          \<longrightarrow> keypair_fetch env owner input init s = call_baseClient env input init s2
              \<and> pay_calls (snd (keypair_fetch env owner input init s))
                  = pay_calls s @ [BaseFetch input init, EnsureAta mint, BaseFetch input init])
       \<and> (ensureAssociatedTokenAccount env owner mint
            (s\<lparr>chain := v1, pay_calls := pay_calls s @ [BaseFetch input init]\<rparr>) = (Inl e, s2)
          \<longrightarrow> keypair_fetch env owner input init s = (Inl e, s2)
              \<and> pay_calls s2 = pay_calls s @ [BaseFetch input init, EnsureAta mint])
       \<and> (\<exists>evs. pay_calls (snd (keypair_fetch env owner input init s)) = pay_calls s @ evs
                \<and> remediations evs = 1 \<and> base_fetches evs \<le> 2)"
proof -
  let ?s1 = "s\<lparr>chain := v1, pay_calls := pay_calls s @ [BaseFetch input init]\<rparr>"
  have a: "ensureAssociatedTokenAccount env owner mint ?s1 = (Inr u, s2)
          \<longrightarrow> keypair_fetch env owner input init s = call_baseClient env input init s2
              \<and> pay_calls (snd (keypair_fetch env owner input init s))
                  = pay_calls s @ [BaseFetch input init, EnsureAta mint, BaseFetch input init]"
    using keypair_fetch_retry [OF assms, of owner u s2] by blast
  have b: "ensureAssociatedTokenAccount env owner mint ?s1 = (Inl e, s2)
          \<longrightarrow> keypair_fetch env owner input init s = (Inl e, s2)
              \<and> pay_calls s2 = pay_calls s @ [BaseFetch input init, EnsureAta mint]"
    using keypair_fetch_remediation_fails [OF assms, of owner e s2] by blast
  have c: "\<exists>evs. pay_calls (snd (keypair_fetch env owner input init s)) = pay_calls s @ evs
                \<and> remediations evs = 1 \<and> base_fetches evs \<le> 2"
  proof (cases "ensureAssociatedTokenAccount env owner mint ?s1")
    case p: (Pair r2 s3)
    show ?thesis
    proof (cases r2)
      case (Inl e')
      with p keypair_fetch_remediation_fails [OF assms, of owner e' s3]
      have "pay_calls (snd (keypair_fetch env owner input init s))
          = pay_calls s @ [BaseFetch input init, EnsureAta mint]"
        by simp
      then show ?thesis
        by (simp add: remediations_def base_fetches_def)
    next
      case (Inr u')
      with p keypair_fetch_retry [OF assms, of owner u' s3]
      have "pay_calls (snd (keypair_fetch env owner input init s))
          = pay_calls s @ [BaseFetch input init, EnsureAta mint, BaseFetch input init]"
        by simp
      then show ?thesis
        by (simp add: remediations_def base_fetches_def)
    qed
  qed
  from a b c show ?thesis by blast
qed

theorem remediate_once_retry_once_witness:
  "baseClient_fetch (broke_env True) ''https://api.limen.trade/api/analyze/signal'' signal_init
     (chain pay0) = (Inl missing_account, 1)
   \<and> error_message missing_account = Inr missing_account_message
   \<and> mintMatch missing_account_message = Some usdc_mint
   \<and> ensureAssociatedTokenAccount (broke_env True) ''0wner'' usdc_mint
        \<lparr>chain = 1,
         pay_calls = [BaseFetch ''https://api.limen.trade/api/analyze/signal'' signal_init]\<rparr>
       = (Inr (),
          \<lparr>chain = 1,
           pay_calls = [BaseFetch ''https://api.limen.trade/api/analyze/signal'' signal_init,
                        EnsureAta usdc_mint]\<rparr>)
   \<and> keypair_fetch (broke_env True) ''0wner'' ''https://api.limen.trade/api/analyze/signal''
        signal_init pay0
       = (Inl missing_account,
          \<lparr>chain = 2,
           pay_calls = [BaseFetch ''https://api.limen.trade/api/analyze/signal'' signal_init,
                        EnsureAta usdc_mint,
                        BaseFetch ''https://api.limen.trade/api/analyze/signal'' signal_init]\<rparr>)"
  using remediate_once_retry_once [of "broke_env True"
      "''https://api.limen.trade/api/analyze/signal''" signal_init pay0 missing_account 1
      missing_account_message usdc_mint "''0wner''" "()"
      "\<lparr>chain = 1,
        pay_calls = [BaseFetch ''https://api.limen.trade/api/analyze/signal'' signal_init,
                     EnsureAta usdc_mint]\<rparr>"]
    mintMatch_usdc error_message_missing_account
  by (simp add: call_baseClient_def ensureAssociatedTokenAccount_def
      ensure_body_def on_chain_def broke_env_def pay0_def
      await_def settled_def throw_def resolve_def Let_def)

end
